theory Spec2Isabelle
  imports Complex_Main "HOL-Library.Log_Nat" "HOL-Library.Multiset" "HOL-Library.Sublist"
begin

section \<open>JavaScript values, responses and the log\<close>

text \<open>
  Values that reach the handlers through a parsed request body, or that the shapefile
  parser yields. \<open>JUndefined\<close> is what reading an absent property gives. A number
  inside such a value is held by its value.
\<close>

datatype jsval =
    JUndefined
  | JNull
  | JBool bool
  | JNum rat
  | JStr string
  | JArr "jsval list"
  | JObj "(string \<times> jsval) list"

text \<open>The test \<^verbatim>\<open>if (v)\<close> and its negation \<^verbatim>\<open>!v\<close>.\<close>

fun truthy :: "jsval \<Rightarrow> bool" where
  "truthy JUndefined = False"
| "truthy JNull = False"
| "truthy (JBool b) = b"
| "truthy (JNum n) = (n \<noteq> 0)"
| "truthy (JStr s) = (s \<noteq> [])"
| "truthy (JArr xs) = True"
| "truthy (JObj kvs) = True"

text \<open>Property access \<^verbatim>\<open>obj.k\<close>, as the destructuring of \<^verbatim>\<open>req.body\<close> does it.\<close>

definition get_prop :: "(string \<times> jsval) list \<Rightarrow> string \<Rightarrow> jsval" where
  "get_prop obj k = (case map_of obj k of None \<Rightarrow> JUndefined | Some v \<Rightarrow> v)"

text \<open>\<^verbatim>\<open>String.prototype.toLowerCase\<close> on the ASCII letters; the other characters of a
  string, held as bytes, stay as they are.\<close>

definition toLowerCase :: "string \<Rightarrow> string" where
  "toLowerCase s =
     map (\<lambda>c. case map_of (zip ''ABCDEFGHIJKLMNOPQRSTUVWXYZ'' ''abcdefghijklmnopqrstuvwxyz'') c of
                 Some d \<Rightarrow> d | None \<Rightarrow> c) s"

definition endsWith :: "string \<Rightarrow> string \<Rightarrow> bool" where
  "endsWith s t = (length t \<le> length s \<and> drop (length s - length t) s = t)"

text \<open>A number inside a template literal: its decimal digits.\<close>

fun show_nat :: "nat \<Rightarrow> string" where
  "show_nat n =
     (if n < 10 then [''0123456789'' ! n]
      else show_nat (n div 10) @ [''0123456789'' ! (n mod 10)])"

declare show_nat.simps [simp del]

subsection \<open>Numbers\<close>

text \<open>
  A number that a handler computes with is a double: a finite value, one of the two
  infinities, or \<^verbatim>\<open>NaN\<close>. The sign of a zero is not held, and a quotient by zero takes the
  sign of its dividend: the handlers pass their numbers on in a JSON body or as the text
  of a statement parameter, and neither shows the sign of a zero, nor does a body show
  that of an infinity.
\<close>

datatype number = Finite rat | PosInf | NegInf | NaN

text \<open>\<open>fl\<close> rounds a rational to the nearest double, ties to the even significand:
  \<open>binade x\<close> is the exponent \<open>b\<close> with \<open>pow2 b \<le> \<bar>x\<bar> < pow2 (b + 1)\<close>, the
  significand has 53 bits down to the exponent \<open>-1074\<close> of the subnormal numbers, and
  what rounds to \<open>2 ^ 1024\<close> or beyond is an infinity.\<close>

definition pow2 :: "int \<Rightarrow> rat" where
  "pow2 e = (if 0 \<le> e then 2 ^ nat e else 1 / 2 ^ nat (- e))"

definition binade :: "rat \<Rightarrow> int" where
  "binade x = (case quotient_of \<bar>x\<bar> of (p, q) \<Rightarrow>
                 (let k = bitlen p - bitlen q in if pow2 k \<le> \<bar>x\<bar> then k else k - 1))"

definition round_half_even :: "rat \<Rightarrow> int" where
  "round_half_even q =
     (let f = \<lfloor>q\<rfloor>; r = q - of_int f
      in if r < 1 / 2 then f else if 1 / 2 < r then f + 1 else if even f then f else f + 1)"

definition fl :: "rat \<Rightarrow> number" where
  "fl x =
     (if x = 0 then Finite 0
      else (let e = max (binade x - 52) (- 1074);
                v = of_int (round_half_even (\<bar>x\<bar> / pow2 e)) * pow2 e
            in if 2 ^ 1024 \<le> v then (if 0 < x then PosInf else NegInf)
               else Finite (sgn x * v)))"

text \<open>The operators \<^verbatim>\<open>-\<close>, \<^verbatim>\<open>*\<close> and \<^verbatim>\<open>/\<close> on two numbers, the comparison \<^verbatim>\<open>>\<close>, and
  \<^verbatim>\<open>Math.ceil\<close>.\<close>

fun js_sub :: "number \<Rightarrow> number \<Rightarrow> number" where
  "js_sub (Finite a) (Finite b) = fl (a - b)"
| "js_sub NaN y = NaN"
| "js_sub x NaN = NaN"
| "js_sub PosInf PosInf = NaN"
| "js_sub NegInf NegInf = NaN"
| "js_sub PosInf y = PosInf"
| "js_sub NegInf y = NegInf"
| "js_sub (Finite a) PosInf = NegInf"
| "js_sub (Finite a) NegInf = PosInf"

definition negative :: "number \<Rightarrow> bool" where
  "negative x = (case x of Finite a \<Rightarrow> a < 0 | NegInf \<Rightarrow> True | _ \<Rightarrow> False)"

definition infinity :: "bool \<Rightarrow> number" where
  "infinity neg = (if neg then NegInf else PosInf)"

fun js_mul :: "number \<Rightarrow> number \<Rightarrow> number" where
  "js_mul (Finite a) (Finite b) = fl (a * b)"
| "js_mul NaN y = NaN"
| "js_mul x NaN = NaN"
| "js_mul (Finite a) y = (if a = 0 then NaN else infinity (negative (Finite a) \<noteq> negative y))"
| "js_mul x (Finite b) = (if b = 0 then NaN else infinity (negative x \<noteq> negative (Finite b)))"
| "js_mul x y = infinity (negative x \<noteq> negative y)"

fun js_div :: "number \<Rightarrow> number \<Rightarrow> number" where
  "js_div (Finite a) (Finite b) =
     (if b = 0 then (if a = 0 then NaN else infinity (a < 0)) else fl (a / b))"
| "js_div NaN y = NaN"
| "js_div x NaN = NaN"
| "js_div (Finite a) y = Finite 0"
| "js_div x (Finite b) = infinity (negative x \<noteq> negative (Finite b))"
| "js_div x y = NaN"

fun js_greater :: "number \<Rightarrow> number \<Rightarrow> bool" where
  "js_greater (Finite a) (Finite b) = (b < a)"
| "js_greater NaN y = False"
| "js_greater x NaN = False"
| "js_greater PosInf y = (y \<noteq> PosInf)"
| "js_greater x NegInf = (x \<noteq> NegInf)"
| "js_greater x y = False"

fun Math_ceil :: "number \<Rightarrow> number" where
  "Math_ceil (Finite r) = Finite (of_int \<lceil>r\<rceil>)"
| "Math_ceil v = v"

text \<open>A number in a JSON body: \<^verbatim>\<open>JSON.stringify\<close> writes \<^verbatim>\<open>null\<close> for one that is not
  finite. A number as a text: \<open>to_text\<close> gives the digits of a finite one.\<close>

definition json_number :: "number \<Rightarrow> jsval" where
  "json_number x = (case x of Finite r \<Rightarrow> JNum r | _ \<Rightarrow> JNull)"

definition number_text :: "(jsval \<Rightarrow> string) \<Rightarrow> number \<Rightarrow> string" where
  "number_text to_text x =
     (case x of Finite r \<Rightarrow> to_text (JNum r) | PosInf \<Rightarrow> ''Infinity''
              | NegInf \<Rightarrow> ''-Infinity'' | NaN \<Rightarrow> ''NaN'')"

subsection \<open>The log and the responses\<close>

datatype level = LError | LWarn | LInfo | LHttp | LDebug

record log_entry =
  level :: level
  message :: string
  meta :: "(string \<times> jsval) list"

datatype payload =
    JsonBody jsval
  | TextBody string string
  | FileBody string string
  | NoBody

record response =
  status :: nat
  payload :: payload

definition json :: "nat \<Rightarrow> (string \<times> jsval) list \<Rightarrow> response" where
  "json code kvs = \<lparr>status = code, payload = JsonBody (JObj kvs)\<rparr>"

section \<open>The store: the \<^verbatim>\<open>shapefiles\<close> table behind the connection pool\<close>

text \<open>
  A row of the table created by \<^verbatim>\<open>initTable\<close>. The geometry type \<open>'g\<close> is the
  store's own; \<open>metadata\<close> holds the JSON document as text.
\<close>

record 'g row =
  id_col :: int
  name_col :: string
  geom_col :: 'g
  bbox_col :: "'g option"
  metadata_col :: "string option"
  created_at :: nat
  updated_at :: nat

text \<open>
  The transaction of the one connection a request works on: none, open with its working
  copy of the table, or failed (a statement was rejected inside it).
\<close>

datatype 'g txn_state = Idle | Open "'g row list" | Failed

record 'g world =
  committed :: "'g row list"
  txn :: "'g txn_state"
  next_id :: int
  now :: nat
  issued :: nat
  borrowed :: nat
  disk :: "string list"
  log_lines :: "log_entry list"

text \<open>
  What lies outside the repository and is taken as given.
  \<^item> The runtime: \<^verbatim>\<open>JSON.stringify\<close>, \<^verbatim>\<open>JSON.parse\<close> (\<open>Inl\<close> is the message of the
    error it throws), the string conversion of a value that is not a string,
    \<^verbatim>\<open>String.prototype.toUpperCase\<close> with the case mappings of Unicode, the number that a
    value which is not a number is coerced to, \<^verbatim>\<open>parseInt\<close>, the ISO form of a time, the
    shapefile parser, and the failure of an \<^verbatim>\<open>unlink\<close>.
  \<^item> The database driver and the store: the text the driver sends for a parameter that is
    not a string, the store's reading of a text as an integer and as a big integer, its
    geometry engine, the text it returns for a geometry column, and its JSON document
    functions.
  \<^item> The failures that may strike: \<open>db_fault k\<close> is the error of the \<open>k\<close>-th
    statement sent to the store, when the store rejects it for any reason or the
    connection breaks there; \<open>connect_fault\<close> is the error of taking a connection
    from the pool.
  An error is held by its message. One request is served at a time.
\<close>

datatype 'f read_step = Record 'f | ReadFailure string

record feature =
  geometry :: jsval
  properties :: jsval

record 'g env =
  JSON_stringify :: "jsval \<Rightarrow> string"
  JSON_parse :: "string \<Rightarrow> string + jsval"
  ToString :: "jsval \<Rightarrow> string"
  toUpperCase :: "string \<Rightarrow> string"
  ToNumber :: "jsval \<Rightarrow> number"
  parseInt :: "jsval \<Rightarrow> number"
  toISOString :: "nat \<Rightarrow> string"
  shapefile_open :: "string \<Rightarrow> string + feature read_step list"
  unlink_fault :: "string \<Rightarrow> string option"
  prepareValue :: "jsval \<Rightarrow> string"
  int4in :: "string \<Rightarrow> int option"
  int8in :: "string \<Rightarrow> int option"
  ST_GeomFromGeoJSON :: "string \<Rightarrow> 'g option"
  ST_Envelope :: "'g \<Rightarrow> 'g"
  ST_AsGeoJSON :: "'g \<Rightarrow> string"
  geometry_out :: "'g \<Rightarrow> string"
  jsonb_out :: "string \<Rightarrow> jsval"
  jsonb_concat :: "string \<Rightarrow> string \<Rightarrow> string"
  jsonb_field_text :: "string \<Rightarrow> string \<Rightarrow> string option"
  db_fault :: "nat \<Rightarrow> string option"
  connect_fault :: "string option"

text \<open>Modelled from the spec: \<^verbatim>\<open>config/logger\<close>, the module that builds the logger the
  handlers call, is not among the sources. A call of one of its methods is taken to
  record the level, the message and the fields it is given, after the lines recorded
  before, and not to fail.\<close>

definition logger :: "level \<Rightarrow> string \<Rightarrow> (string \<times> jsval) list \<Rightarrow> 'g world \<Rightarrow> 'g world" where
  "logger lvl msg kvs w = w\<lparr>log_lines := log_lines w @ [\<lparr>level = lvl, message = msg, meta = kvs\<rparr>]\<rparr>"

text \<open>The prefix \<^verbatim>\<open>[${transactionId}] \<close> of the log lines.\<close>

definition tagged :: "string \<Rightarrow> string \<Rightarrow> string" where
  "tagged tid msg = ''['' @ tid @ ''] '' @ msg"

subsection \<open>Statements\<close>

text \<open>Modelled from the spec: \<^verbatim>\<open>db\<close>, the module that builds the connection pool, is
  not among the sources. The pool is taken to hand out connections to one store that
  holds the table, with the transactions the spec's persistence design relies on: the
  statements between \<^verbatim>\<open>BEGIN\<close> and \<^verbatim>\<open>COMMIT\<close> work on a copy that replaces the table
  when the commit goes through and is dropped otherwise; outside a transaction each
  statement takes effect at once.\<close>

definition fail_txn :: "'g txn_state \<Rightarrow> 'g txn_state" where
  "fail_txn t = (case t of Idle \<Rightarrow> Idle | Open rs \<Rightarrow> Failed | Failed \<Rightarrow> Failed)"

text \<open>The rows a statement sees, and where it writes: the working copy when a
  transaction is open, the table itself otherwise.\<close>

definition visible :: "'g world \<Rightarrow> 'g row list" where
  "visible w = (case txn w of Open rs \<Rightarrow> rs | Idle \<Rightarrow> committed w | Failed \<Rightarrow> committed w)"

definition write_rows :: "'g row list \<Rightarrow> 'g world \<Rightarrow> 'g world" where
  "write_rows rs w = (case txn w of Open old \<Rightarrow> w\<lparr>txn := Open rs\<rparr>
                             | Idle \<Rightarrow> w\<lparr>committed := rs\<rparr>
                             | Failed \<Rightarrow> w)"

text \<open>
  One data statement: it takes the next place in the fault schedule, is refused in a
  failed transaction, and a rejected statement fails the transaction it ran in.
\<close>

definition statement ::
  "'g env \<Rightarrow> ('g world \<Rightarrow> (string + 'a) \<times> 'g world) \<Rightarrow> 'g world \<Rightarrow> (string + 'a) \<times> 'g world" where
  "statement env run w =
     (let w1 = w\<lparr>issued := Suc (issued w)\<rparr> in
      case db_fault env (issued w) of
        Some e \<Rightarrow> (Inl e, w1\<lparr>txn := fail_txn (txn w1)\<rparr>)
      | None \<Rightarrow>
          (case txn w1 of
             Failed \<Rightarrow> (Inl ''current transaction is aborted'', w1)
           | _ \<Rightarrow> (case run w1 of
                     (Inl e, w2) \<Rightarrow> (Inl e, w2\<lparr>txn := fail_txn (txn w2)\<rparr>)
                   | (Inr v, w2) \<Rightarrow> (Inr v, w2))))"

definition q_begin :: "'g env \<Rightarrow> 'g world \<Rightarrow> (string + unit) \<times> 'g world" where
  "q_begin env w =
     (let w1 = w\<lparr>issued := Suc (issued w)\<rparr> in
      case db_fault env (issued w) of
        Some e \<Rightarrow> (Inl e, w1\<lparr>txn := fail_txn (txn w1)\<rparr>)
      | None \<Rightarrow> (Inr (), (case txn w1 of Idle \<Rightarrow> w1\<lparr>txn := Open (committed w1)\<rparr>
                                        | Open rs \<Rightarrow> w1
                                        | Failed \<Rightarrow> w1)))"

text \<open>\<^verbatim>\<open>COMMIT\<close> publishes the working copy; in a failed transaction it only ends it. A
  commit that is rejected publishes nothing.\<close>

definition q_commit :: "'g env \<Rightarrow> 'g world \<Rightarrow> (string + unit) \<times> 'g world" where
  "q_commit env w =
     (let w1 = w\<lparr>issued := Suc (issued w)\<rparr> in
      case db_fault env (issued w) of
        Some e \<Rightarrow> (Inl e, w1\<lparr>txn := Idle\<rparr>)
      | None \<Rightarrow> (Inr (), (case txn w1 of Open rs \<Rightarrow> w1\<lparr>committed := rs, txn := Idle\<rparr>
                                        | Idle \<Rightarrow> w1
                                        | Failed \<Rightarrow> w1\<lparr>txn := Idle\<rparr>)))"

text \<open>\<^verbatim>\<open>ROLLBACK\<close> drops the working copy. When the client sees it fail the connection is
  gone, and the store drops the transaction with it.\<close>

definition q_rollback :: "'g env \<Rightarrow> 'g world \<Rightarrow> (string + unit) \<times> 'g world" where
  "q_rollback env w =
     (let w1 = w\<lparr>issued := Suc (issued w), txn := Idle\<rparr> in
      case db_fault env (issued w) of
        Some e \<Rightarrow> (Inl e, w1)
      | None \<Rightarrow> (Inr (), w1))"

text \<open>\<^verbatim>\<open>DELETE FROM shapefiles WHERE name = $1\<close>; the result is the row count.\<close>

definition q_delete_by_name :: "'g env \<Rightarrow> string \<Rightarrow> 'g world \<Rightarrow> (string + nat) \<times> 'g world" where
  "q_delete_by_name env nm =
     statement env (\<lambda>w. (Inr (length (filter (\<lambda>r. name_col r = nm) (visible w))),
                         write_rows (filter (\<lambda>r. name_col r \<noteq> nm) (visible w)) w))"

text \<open>\<^verbatim>\<open>SELECT ST_Envelope(ST_GeomFromGeoJSON($1)) AS bbox\<close>: one row, whose \<open>bbox\<close>
  is returned.\<close>

definition q_select_envelope :: "'g env \<Rightarrow> string \<Rightarrow> 'g world \<Rightarrow> (string + 'g) \<times> 'g world" where
  "q_select_envelope env text =
     statement env (\<lambda>w. case ST_GeomFromGeoJSON env text of
                          None \<Rightarrow> (Inl ''invalid GeoJSON representation'', w)
                        | Some g \<Rightarrow> (Inr (ST_Envelope env g), w))"

text \<open>\<^verbatim>\<open>INSERT INTO shapefiles (name, geom, metadata, bbox)
  VALUES ($1, ST_GeomFromGeoJSON($2), $3, $4)\<close>. The serial \<open>id\<close> is drawn from a
  sequence, which a rollback does not rewind; both timestamps default to \<open>NOW()\<close>.\<close>

definition q_insert ::
  "'g env \<Rightarrow> string \<Rightarrow> string \<Rightarrow> string option \<Rightarrow> 'g option \<Rightarrow> 'g world \<Rightarrow> (string + unit) \<times> 'g world" where
  "q_insert env nm text md bb =
     statement env (\<lambda>w. case ST_GeomFromGeoJSON env text of
                          None \<Rightarrow> (Inl ''invalid GeoJSON representation'', w)
                        | Some g \<Rightarrow>
                            (Inr (),
                             write_rows (visible w @
                                    [\<lparr>id_col = next_id w, name_col = nm, geom_col = g, bbox_col = bb,
                                      metadata_col = md, created_at = now w, updated_at = now w\<rparr>])
                                   (w\<lparr>next_id := next_id w + 1\<rparr>)))"

subsection \<open>The pool and the upload directory\<close>

definition pool_connect :: "'g env \<Rightarrow> 'g world \<Rightarrow> (string + unit) \<times> 'g world" where
  "pool_connect env w =
     (case connect_fault env of
        Some e \<Rightarrow> (Inl e, w)
      | None \<Rightarrow> (Inr (), w\<lparr>borrowed := Suc (borrowed w)\<rparr>))"

definition release :: "'g world \<Rightarrow> 'g world" where
  "release w = w\<lparr>borrowed := borrowed w - 1\<rparr>"

definition unlinkSync :: "'g env \<Rightarrow> string \<Rightarrow> 'g world \<Rightarrow> (string + unit) \<times> 'g world" where
  "unlinkSync env p w =
     (case unlink_fault env p of
        Some e \<Rightarrow> (Inl e, w)
      | None \<Rightarrow> (if p \<in> set (disk w) then (Inr (), w\<lparr>disk := removeAll p (disk w)\<rparr>)
                 else (Inl ''ENOENT: no such file or directory'', w)))"

section \<open>\<^verbatim>\<open>POST /upload\<close>\<close>

record upload_file =
  originalname :: string
  path :: string

text \<open>The filter that multer applies to every file of the request before the handler runs:
  \<^verbatim>\<open>path.extname\<close> is the part of the last path segment from its last dot on, and is empty
  when there is no dot or the only dot opens the segment. The request may carry four files
  at most (\<^verbatim>\<open>limits.files\<close>).\<close>

definition extname :: "string \<Rightarrow> string" where
  "extname p =
     (let base = rev (takeWhile (\<lambda>c. c \<noteq> CHR ''/'') (rev p));
          ext = rev (takeWhile (\<lambda>c. c \<noteq> CHR ''.'') (rev base))
      in if length ext = length base \<or> length ext + 1 = length base then []
         else CHR ''.'' # ext)"

definition fileFilter :: "upload_file \<Rightarrow> bool" where
  "fileFilter file =
     (toLowerCase (extname (originalname file)) \<in> set [''.shp'', ''.shx'', ''.dbf'', ''.prj''])"

definition files_limit :: nat where
  "files_limit = 4"

text \<open>The loop over \<^verbatim>\<open>source.read()\<close>: a source is the sequence of its reads, and the
  read after the last one reports \<^verbatim>\<open>done\<close>.\<close>

fun read_features :: "feature read_step list \<Rightarrow> feature list \<Rightarrow> string + feature list" where
  "read_features [] features = Inr features"
| "read_features (ReadFailure e # rest) features = Inl e"
| "read_features (Record v # rest) features =
     read_features rest (if truthy (geometry v) then features @ [v] else features)"

text \<open>The \<^verbatim>\<open>for (const feature of features)\<close> loop inside the transaction.\<close>

fun insert_features ::
  "'g env \<Rightarrow> string \<Rightarrow> feature list \<Rightarrow> 'g world \<Rightarrow> (string + unit) \<times> 'g world" where
  "insert_features env nm [] w = (Inr (), w)"
| "insert_features env nm (feature # rest) w =
     (let geom = JSON_stringify env (geometry feature) in
      case q_select_envelope env geom w of
        (Inl e, w1) \<Rightarrow> (Inl e, w1)
      | (Inr bbox, w1) \<Rightarrow>
          (case q_insert env nm geom
                  (if truthy (properties feature)
                   then Some (JSON_stringify env (properties feature)) else None)
                  (Some bbox) w1 of
             (Inl e, w2) \<Rightarrow> (Inl e, w2)
           | (Inr u, w2) \<Rightarrow> insert_features env nm rest w2))"

text \<open>The body of the inner \<^verbatim>\<open>try\<close>.\<close>

definition upload_txn ::
  "'g env \<Rightarrow> string \<Rightarrow> upload_file \<Rightarrow> feature list \<Rightarrow> 'g world \<Rightarrow> (string + response) \<times> 'g world" where
  "upload_txn env tid shpFile features w =
     (case q_begin env w of
        (Inl e, w1) \<Rightarrow> (Inl e, w1)
      | (Inr u, w1) \<Rightarrow>
     (case q_delete_by_name env (originalname shpFile) w1 of
        (Inl e, w2) \<Rightarrow> (Inl e, w2)
      | (Inr n, w2) \<Rightarrow>
     (case insert_features env (originalname shpFile) features w2 of
        (Inl e, w3) \<Rightarrow> (Inl e, w3)
      | (Inr u, w3) \<Rightarrow>
     (case q_commit env w3 of
        (Inl e, w4) \<Rightarrow> (Inl e, w4)
      | (Inr u, w4) \<Rightarrow>
          (Inr (json 201 [(''success'', JBool True),
                          (''count'', JNum (of_nat (length features))),
                          (''name'', JStr (originalname shpFile))]),
           logger LInfo
             (tagged tid (''Successfully saved '' @ show_nat (length features) @ '' features''))
             [] w4)))))"

text \<open>The \<^verbatim>\<open>catch (dbError)\<close> block: its own \<^verbatim>\<open>ROLLBACK\<close> may throw in turn.\<close>

definition upload_catch ::
  "'g env \<Rightarrow> string \<Rightarrow> string \<Rightarrow> 'g world \<Rightarrow> (string + response) \<times> 'g world" where
  "upload_catch env tid dbError w =
     (case q_rollback env w of
        (Inl e, w1) \<Rightarrow> (Inl e, w1)
      | (Inr u, w1) \<Rightarrow>
          (Inl dbError, logger LError (tagged tid ''Database error'') [(''error'', JStr dbError)] w1))"

text \<open>The \<^verbatim>\<open>finally\<close> block: release, then unlink every uploaded file, logging what
  fails.\<close>

fun cleanup :: "'g env \<Rightarrow> string \<Rightarrow> upload_file list \<Rightarrow> 'g world \<Rightarrow> 'g world" where
  "cleanup env tid [] w = w"
| "cleanup env tid (file # rest) w =
     (case unlinkSync env (path file) w of
        (Inr u, w1) \<Rightarrow> cleanup env tid rest w1
      | (Inl cleanError, w1) \<Rightarrow>
          cleanup env tid rest
            (logger LError (tagged tid ''Cleanup error'')
               [(''file'', JStr (path file)), (''error'', JStr cleanError)] w1))"

definition upload_finally :: "'g env \<Rightarrow> string \<Rightarrow> upload_file list \<Rightarrow> 'g world \<Rightarrow> 'g world" where
  "upload_finally env tid files w = cleanup env tid files (release w)"

text \<open>The body of the outer \<^verbatim>\<open>try\<close>. \<open>files\<close> is \<^verbatim>\<open>req.files\<close>, \<open>None\<close> when
  it is undefined.\<close>

definition upload_try ::
  "'g env \<Rightarrow> string \<Rightarrow> upload_file list option \<Rightarrow> 'g world \<Rightarrow> (string + response) \<times> 'g world" where
  "upload_try env tid files w =
     (case files of
        None \<Rightarrow>
          (Inr (json 400 [(''error'', JStr ''Please upload .shp, .shx, and .dbf files'')]),
           logger LWarn (tagged tid ''Missing required files'') [] w)
      | Some fs \<Rightarrow>
     (if length fs < 3 then
          (Inr (json 400 [(''error'', JStr ''Please upload .shp, .shx, and .dbf files'')]),
           logger LWarn (tagged tid ''Missing required files'') [] w)
      else
     (case find (\<lambda>f. endsWith (toLowerCase (originalname f)) ''.shp'') fs of
        None \<Rightarrow>
          (Inr (json 400 [(''error'', JStr ''No .shp file found'')]),
           logger LWarn (tagged tid ''No .shp file found'') [] w)
      | Some shpFile \<Rightarrow>
     (let w1 = logger LDebug (tagged tid (''Processing shapefile: '' @ path shpFile)) [] w in
      case shapefile_open env (path shpFile) of
        Inl e \<Rightarrow> (Inl e, w1)
      | Inr source \<Rightarrow>
     (case read_features source [] of
        Inl e \<Rightarrow> (Inl e, w1)
      | Inr features \<Rightarrow>
     (if length features = 0 then
          (Inr (json 400 [(''error'', JStr ''No valid features found in shapefile'')]),
           logger LWarn (tagged tid ''No valid features found'') [] w1)
      else
     (let w2 = logger LInfo (tagged tid (''Read '' @ show_nat (length features) @ '' features'')) [] w1 in
      case pool_connect env w2 of
        (Inl e, w3) \<Rightarrow> (Inl e, w3)
      | (Inr u, w3) \<Rightarrow>
          (case (case upload_txn env tid shpFile features w3 of
                   (Inr r, w4) \<Rightarrow> (Inr r, w4)
                 | (Inl dbError, w4) \<Rightarrow> upload_catch env tid dbError w4) of
             (res, w5) \<Rightarrow> (res, upload_finally env tid fs w5)))))))))"

definition upload ::
  "'g env \<Rightarrow> string \<Rightarrow> upload_file list option \<Rightarrow> 'g world \<Rightarrow> response \<times> 'g world" where
  "upload env tid files w =
     (case upload_try env tid files (logger LInfo (tagged tid ''Starting shapefile upload'') [] w) of
        (Inr r, w1) \<Rightarrow> (r, w1)
      | (Inl error, w1) \<Rightarrow>
          (json 500 [(''error'', JStr ''Failed to process shapefile'')],
           logger LError (tagged tid ''Processing failed'') [(''error'', JStr error)] w1))"


section \<open>The other routes of the shapefile router\<close>

text \<open>What a handler leaves behind: a response it sent, or the exception that escaped it
  (no response was written by the handler).\<close>

datatype outcome = Responded response | Rejected string

text \<open>A value inside a template literal, and a value bound to a statement parameter.\<close>

definition template :: "'g env \<Rightarrow> jsval \<Rightarrow> string" where
  "template env v = (case v of JStr s \<Rightarrow> s | _ \<Rightarrow> ToString env v)"

definition param_text :: "'g env \<Rightarrow> jsval \<Rightarrow> string" where
  "param_text env v = (case v of JStr s \<Rightarrow> s | _ \<Rightarrow> prepareValue env v)"

text \<open>The statements \<^verbatim>\<open>... FROM shapefiles WHERE id = $1\<close>: the rows matched; each handler
  reads the columns its statement selects.\<close>

definition q_select_by_id :: "'g env \<Rightarrow> jsval \<Rightarrow> 'g world \<Rightarrow> (string + 'g row list) \<times> 'g world" where
  "q_select_by_id env idv =
     statement env (\<lambda>w. case int4in env (param_text env idv) of
                          None \<Rightarrow> (Inl ''invalid input syntax for type integer'', w)
                        | Some i \<Rightarrow> (Inr (filter (\<lambda>r. id_col r = i) (visible w)), w))"

text \<open>\<^verbatim>\<open>DELETE FROM shapefiles WHERE id = $1\<close>; the result is \<^verbatim>\<open>rowCount\<close>.\<close>

definition q_delete_by_id :: "'g env \<Rightarrow> jsval \<Rightarrow> 'g world \<Rightarrow> (string + nat) \<times> 'g world" where
  "q_delete_by_id env idv =
     statement env (\<lambda>w. case int4in env (param_text env idv) of
                          None \<Rightarrow> (Inl ''invalid input syntax for type integer'', w)
                        | Some i \<Rightarrow>
                            (Inr (length (filter (\<lambda>r. id_col r = i) (visible w))),
                             write_rows (filter (\<lambda>r. id_col r \<noteq> i) (visible w)) w))"

text \<open>\<^verbatim>\<open>ORDER BY created_at DESC LIMIT $1 OFFSET $2\<close>. The store leaves the order of rows
  with equal \<open>created_at\<close> open; the model takes the later-inserted first. The two
  parameters reach the store as texts, which it reads as big integers.\<close>

definition order_by_created_desc :: "'g row list \<Rightarrow> 'g row list" where
  "order_by_created_desc rs = rev (sort_key created_at rs)"

definition q_select_page :: "'g env \<Rightarrow> string \<Rightarrow> string \<Rightarrow> 'g world \<Rightarrow> (string + 'g row list) \<times> 'g world" where
  "q_select_page env limit_text offset_text =
     statement env (\<lambda>w.
       case int8in env limit_text of
         None \<Rightarrow> (Inl ''invalid input syntax for type bigint'', w)
       | Some limit \<Rightarrow>
           (case int8in env offset_text of
              None \<Rightarrow> (Inl ''invalid input syntax for type bigint'', w)
            | Some offset \<Rightarrow>
                (if limit < 0 then (Inl ''LIMIT must not be negative'', w)
                 else if offset < 0 then (Inl ''OFFSET must not be negative'', w)
                 else (Inr (take (nat limit) (drop (nat offset) (order_by_created_desc (visible w)))), w))))"

text \<open>\<^verbatim>\<open>SELECT COUNT(*) FROM shapefiles\<close>: the number of rows, which the driver hands over
  as the text of its decimal digits.\<close>

definition q_count :: "'g env \<Rightarrow> 'g world \<Rightarrow> (string + nat) \<times> 'g world" where
  "q_count env = statement env (\<lambda>w. (Inr (length (visible w)), w))"

subsection \<open>\<^verbatim>\<open>GET /\<close>\<close>

definition timestamp :: "'g env \<Rightarrow> nat \<Rightarrow> jsval" where
  "timestamp env t = JStr (toISOString env t)"

definition listed :: "'g env \<Rightarrow> 'g row \<Rightarrow> jsval" where
  "listed env r =
     JObj [(''id'', JNum (of_int (id_col r))), (''name'', JStr (name_col r)),
           (''geometry'', JStr (ST_AsGeoJSON env (geom_col r))),
           (''created_at'', timestamp env (created_at r)),
           (''updated_at'', timestamp env (updated_at r))]"

text \<open>The number that an arithmetic operator takes a value for, and the default of a
  destructuring, which stands in for a property that is \<^verbatim>\<open>undefined\<close>.\<close>

definition to_number :: "'g env \<Rightarrow> jsval \<Rightarrow> number" where
  "to_number env v = (case v of JNum r \<Rightarrow> Finite r | _ \<Rightarrow> ToNumber env v)"

definition defaulted :: "jsval \<Rightarrow> jsval \<Rightarrow> jsval" where
  "defaulted v d = (case v of JUndefined \<Rightarrow> d | _ \<Rightarrow> v)"

text \<open>The body of the \<^verbatim>\<open>try\<close>. \<open>page_param\<close> and \<open>limit_param\<close> are
  \<^verbatim>\<open>req.query.page\<close> and \<^verbatim>\<open>req.query.limit\<close>: the text the request gives the parameter
  (or the array or object that the query parser builds), \<open>JUndefined\<close> when the request
  has none, in which case the default, a number, takes its place. The offset is
  computed on doubles and sent as a number; the limit is sent as it came.\<close>

definition list_try ::
  "'g env \<Rightarrow> jsval \<Rightarrow> jsval \<Rightarrow> 'g world \<Rightarrow> (string + response) \<times> 'g world" where
  "list_try env page_param limit_param w =
     (let page = defaulted page_param (JNum 1);
          limit = defaulted limit_param (JNum 10);
          offset = js_mul (js_sub (to_number env page) (Finite 1)) (to_number env limit) in
      case q_select_page env (param_text env limit) (number_text (prepareValue env) offset) w of
        (Inl e, w1) \<Rightarrow> (Inl e, w1)
      | (Inr rows, w1) \<Rightarrow>
          (case q_count env w1 of
             (Inl e, w2) \<Rightarrow> (Inl e, w2)
           | (Inr row_count, w2) \<Rightarrow>
               (let count_text = JStr (show_nat row_count) in
                (Inr \<lparr>status = 200, payload = JsonBody (JObj
                       [(''data'', JArr (map (listed env) rows)),
                        (''pagination'', JObj
                           [(''total'', json_number (parseInt env count_text)),
                            (''page'', json_number (parseInt env page)),
                            (''limit'', json_number (parseInt env limit)),
                            (''totalPages'',
                               json_number (Math_ceil (js_div (to_number env count_text)
                                                              (to_number env limit))))])])\<rparr>,
                 w2))))"


subsection \<open>\<^verbatim>\<open>GET /:id\<close>, \<^verbatim>\<open>GET /:id/geometry\<close>, \<^verbatim>\<open>DELETE /:id\<close>, \<^verbatim>\<open>GET /:id/geojson\<close>\<close>

definition document :: "'g env \<Rightarrow> string option \<Rightarrow> jsval" where
  "document env d = (case d of None \<Rightarrow> JNull | Some t \<Rightarrow> jsonb_out env t)"


definition geometry_try :: "'g env \<Rightarrow> string \<Rightarrow> 'g world \<Rightarrow> (string + response) \<times> 'g world" where
  "geometry_try env ident w =
     (case q_select_by_id env (JStr ident) w of
        (Inl e, w1) \<Rightarrow> (Inl e, w1)
      | (Inr rows, w1) \<Rightarrow>
          (case rows of
             [] \<Rightarrow> (Inr (json 404 [(''error'', JStr ''Shapefile not found'')]),
                    logger LWarn (''Shapefile not found: '' @ ident) [] w1)
           | r # rest \<Rightarrow>
               (case JSON_parse env (ST_AsGeoJSON env (geom_col r)) of
                  Inl e \<Rightarrow> (Inl e, w1)
                | Inr v \<Rightarrow> (Inr \<lparr>status = 200, payload = JsonBody v\<rparr>, w1))))"





subsection \<open>\<^verbatim>\<open>PUT /:id\<close>\<close>

datatype column = NameColumn | MetadataColumn

text \<open>The parameter \<^verbatim>\<open>$k\<close> of a statement sent with the list \<open>values\<close>.\<close>

definition placeholder :: "jsval list \<Rightarrow> nat \<Rightarrow> jsval option" where
  "placeholder values k = (if 1 \<le> k \<and> k \<le> length values then Some (values ! (k - 1)) else None)"

fun resolve :: "'g env \<Rightarrow> jsval list \<Rightarrow> (column \<times> nat) list \<Rightarrow> (column \<times> string) list option" where
  "resolve env values [] = Some []"
| "resolve env values ((col, k) # rest) =
     (case placeholder values k of
        None \<Rightarrow> None
      | Some v \<Rightarrow> (case resolve env values rest of
                     None \<Rightarrow> None
                   | Some xs \<Rightarrow> Some ((col, param_text env v) # xs)))"

fun set_column :: "column \<times> string \<Rightarrow> 'g row \<Rightarrow> 'g row" where
  "set_column (NameColumn, t) r = r\<lparr>name_col := t\<rparr>"
| "set_column (MetadataColumn, t) r = r\<lparr>metadata_col := Some t\<rparr>"

text \<open>\<^verbatim>\<open>UPDATE shapefiles SET ${updates.join(', ')}, updated_at = NOW() WHERE id = $k
  RETURNING *\<close>, where \<open>updates\<close> holds the assignments \<^verbatim>\<open>name = $i\<close> and
  \<^verbatim>\<open>metadata = $j\<close> that the handler collected. With no assignment the text is not a
  statement. The result is the rows as updated.\<close>

definition q_update ::
  "'g env \<Rightarrow> (column \<times> nat) list \<Rightarrow> nat \<Rightarrow> jsval list \<Rightarrow> 'g world \<Rightarrow> (string + 'g row list) \<times> 'g world" where
  "q_update env updates k values =
     statement env (\<lambda>w.
       if updates = [] then (Inl ''syntax error at or near ,'', w)
       else (case (resolve env values updates, placeholder values k) of
               (Some sets, Some idv) \<Rightarrow>
                 (case int4in env (param_text env idv) of
                    None \<Rightarrow> (Inl ''invalid input syntax for type integer'', w)
                  | Some i \<Rightarrow>
                      (let rows = map (\<lambda>r. if id_col r = i
                                            then (fold set_column sets r)\<lparr>updated_at := now w\<rparr>
                                            else r) (visible w)
                       in (Inr (filter (\<lambda>r. id_col r = i) rows), write_rows rows w)))
             | _ \<Rightarrow> (Inl ''bind message supplies the wrong number of parameters'', w)))"

text \<open>The row of \<^verbatim>\<open>RETURNING *\<close> as the response shows it.\<close>

definition returned :: "'g env \<Rightarrow> 'g row \<Rightarrow> (string \<times> jsval) list" where
  "returned env r =
     [(''id'', JNum (of_int (id_col r))), (''name'', JStr (name_col r)),
      (''geom'', JStr (geometry_out env (geom_col r))),
      (''bbox'', (case bbox_col r of None \<Rightarrow> JNull | Some b \<Rightarrow> JStr (geometry_out env b))),
      (''metadata'', document env (metadata_col r)),
      (''created_at'', timestamp env (created_at r)),
      (''updated_at'', timestamp env (updated_at r))]"

text \<open>The three lists the handler builds: the assignments, the values, and the counter
  left for the \<^verbatim>\<open>WHERE\<close> clause.\<close>

definition put_assignments ::
  "'g env \<Rightarrow> jsval \<Rightarrow> jsval \<Rightarrow> string \<Rightarrow> (column \<times> nat) list \<times> jsval list \<times> nat" where
  "put_assignments env name metadata ident =
     (let updates = []; values = []; counter = 1;
          (updates, values, counter) =
             (if truthy name
              then (updates @ [(NameColumn, counter)], values @ [name], counter + 1)
              else (updates, values, counter));
          (updates, values, counter) =
             (if truthy metadata
              then (updates @ [(MetadataColumn, counter)],
                    values @ [JStr (JSON_stringify env metadata)], counter + 1)
              else (updates, values, counter));
          values = values @ [JStr ident]
      in (updates, values, counter))"

definition put_shapefile ::
  "'g env \<Rightarrow> string \<Rightarrow> (string \<times> jsval) list \<Rightarrow> 'g world \<Rightarrow> outcome \<times> 'g world" where
  "put_shapefile env ident req_body w =
     (let name = get_prop req_body ''name''; metadata = get_prop req_body ''metadata'' in
      if \<not> truthy name \<and> \<not> truthy metadata then
        (Responded (json 400 [(''error'', JStr ''No fields to update'')]), w)
      else
        (case put_assignments env name metadata ident of
           (updates, values, counter) \<Rightarrow>
             (case q_update env updates counter values w of
                (Inr rows, w1) \<Rightarrow>
                  (case rows of
                     [] \<Rightarrow> (Responded (json 404 [(''error'', JStr ''Shapefile not found'')]),
                            logger LWarn (''Shapefile not found: '' @ ident) [] w1)
                   | r # rest \<Rightarrow> (Responded (json 200 (returned env r)), w1))
              | (Inl error, w1) \<Rightarrow>
                  (Responded (json 500 [(''error'', JStr ''Failed to update shapefile'')]),
                   logger LError ''Failed to update shapefile''
                     [(''id'', JStr ident), (''error'', JStr error)] w1))))"


section \<open>\<^verbatim>\<open>POST /gee\<close>\<close>

record index_config =
  collection :: string
  bands :: "string list"
  palette :: "string list"
  formula :: string

definition SUPPORTED_INDICES :: "(string \<times> index_config) list" where
  "SUPPORTED_INDICES =
     [(''NDVI'', \<lparr>collection = ''COPERNICUS/S2_SR'',
                  bands = [''B8'', ''B4''],
                  palette = [''#FFFFFF'', ''#CE7E45'', ''#DF923D'', ''#F1B555'', ''#FCD163'',
                             ''#99B718'', ''#74A901'', ''#66A000'', ''#529400'', ''#3E8601'',
                             ''#207401'', ''#056201'', ''#004C00'', ''#023B01'', ''#012E01'',
                             ''#011D01'', ''#011301''],
                  formula = ''(B8 - B4)/(B8 + B4)''\<rparr>),
      (''NDWI'', \<lparr>collection = ''COPERNICUS/S2_SR'',
                  bands = [''B3'', ''B8''],
                  palette = [''#ECE7F2'', ''#D0D1E6'', ''#A6BDDB'', ''#74A9CF'', ''#3690C0'',
                             ''#0570B0'', ''#045A8D'', ''#023858''],
                  formula = ''(B3 - B8)/(B3 + B8)''\<rparr>),
      (''NDBI'', \<lparr>collection = ''MODIS/006/MCD43A4'',
                  bands = [''Nadir_Reflectance_Band6'', ''Nadir_Reflectance_Band2''],
                  palette = [''#FFFFCC'', ''#FFEDA0'', ''#FED976'', ''#FEB24C'', ''#FD8D3C'',
                             ''#FC4E2A'', ''#E31A1C'', ''#BD0026'', ''#800026''],
                  formula = ''(B6 - B2)/(B6 + B2)''\<rparr>)]"

text \<open>The method call \<^verbatim>\<open>v.toUpperCase()\<close> (and \<^verbatim>\<open>v.toLowerCase()\<close>) on a value:
  only a string has the method.\<close>

definition call_toUpperCase :: "'g env \<Rightarrow> jsval \<Rightarrow> string + string" where
  "call_toUpperCase env v =
     (case v of JStr s \<Rightarrow> Inr (toUpperCase env s)
              | JUndefined \<Rightarrow> Inl ''Cannot read properties of undefined (reading 'toUpperCase')''
              | JNull \<Rightarrow> Inl ''Cannot read properties of null (reading 'toUpperCase')''
              | _ \<Rightarrow> Inl ''type.toUpperCase is not a function'')"

definition call_toLowerCase :: "jsval \<Rightarrow> string + string" where
  "call_toLowerCase v =
     (case v of JStr s \<Rightarrow> Inr (toLowerCase s)
              | JUndefined \<Rightarrow> Inl ''Cannot read properties of undefined (reading 'toLowerCase')''
              | JNull \<Rightarrow> Inl ''Cannot read properties of null (reading 'toLowerCase')''
              | _ \<Rightarrow> Inl ''type.toLowerCase is not a function'')"

text \<open>\<^verbatim>\<open>String.prototype.trim\<close>, for the white space of ASCII.\<close>

definition is_space :: "char \<Rightarrow> bool" where
  "is_space c = (c \<in> set [CHR '' '', CHR 0x09, CHR 0x0A, CHR 0x0B, CHR 0x0C, CHR 0x0D])"

definition trim :: "string \<Rightarrow> string" where
  "trim s = rev (dropWhile is_space (rev (dropWhile is_space s)))"

text \<open>The template literal \<open>geeCode\<close>.\<close>

definition geeCode :: "'g env \<Rightarrow> jsval \<Rightarrow> index_config \<Rightarrow> string \<Rightarrow> string" where
  "geeCode env geometry_value cfg upperType =
     ''\<newline>var geometry = ee.Geometry('' @ JSON_stringify env geometry_value @ '');\<newline>'' @
     ''var collection = ee.ImageCollection('' @ [CHR 0x22] @ collection cfg @ [CHR 0x22] @ '')\<newline>'' @
     ''  .filterBounds(geometry)\<newline>'' @
     ''  .filterDate('2023-01-01', '2023-12-31');\<newline>'' @
     ''var image = collection.median()\<newline>'' @
     ''  .normalizedDifference('' @ JSON_stringify env (JArr (map JStr (bands cfg))) @ '');\<newline>'' @
     ''Map.centerObject(geometry, 10);\<newline>'' @
     ''Map.addLayer(image, {\<newline>'' @
     ''  min: 0,\<newline>'' @
     ''  max: 1,\<newline>'' @
     ''  palette: '' @ JSON_stringify env (JArr (map JStr (palette cfg))) @ '',\<newline>'' @
     ''  opacity: 0.8\<newline>'' @
     ''}, '' @ [CHR 0x27] @ upperType @ '' Index'' @ [CHR 0x27] @ '');\<newline>''"

text \<open>The condition \<^verbatim>\<open>!type || !SUPPORTED_INDICES[type.toUpperCase()] || !shapefileId\<close>,
  evaluated from the left; the method call may throw. (A property that an object
  inherits has a lower-case letter in its name, which no upper-case form has.)\<close>

definition gee_missing :: "'g env \<Rightarrow> jsval \<Rightarrow> jsval \<Rightarrow> string + bool" where
  "gee_missing env type shapefileId =
     (if \<not> truthy type then Inr True
      else (case call_toUpperCase env type of
              Inl e \<Rightarrow> Inl e
            | Inr key \<Rightarrow> (if map_of SUPPORTED_INDICES key = None then Inr True
                          else Inr (\<not> truthy shapefileId))))"

text \<open>The body of the \<^verbatim>\<open>try\<close>.\<close>

definition gee_try ::
  "'g env \<Rightarrow> string \<Rightarrow> (string \<times> jsval) list \<Rightarrow> 'g world \<Rightarrow> (string + response) \<times> 'g world" where
  "gee_try env tid req_body w =
     (let type = get_prop req_body ''type''; shapefileId = get_prop req_body ''shapefileId'';
          w0 = logger LInfo (tagged tid ''Generating GEE code'')
                 [(''type'', type), (''shapefileId'', shapefileId)] w in
      case gee_missing env type shapefileId of
        Inl e \<Rightarrow> (Inl e, w0)
      | Inr True \<Rightarrow>
          (Inr (json 400 [(''error'', JStr ''Missing type or shapefileId'')]),
           logger LWarn (tagged tid ''Missing parameters'') [] w0)
      | Inr False \<Rightarrow>
     (case q_select_by_id env shapefileId w0 of
        (Inl e, w1) \<Rightarrow> (Inl e, w1)
      | (Inr rows, w1) \<Rightarrow>
     (case rows of
        [] \<Rightarrow>
          (Inr (json 404 [(''error'', JStr ''Shapefile not found'')]),
           logger LWarn (tagged tid (''Shapefile not found: '' @ template env shapefileId)) [] w1)
      | r # rest \<Rightarrow>
     (case JSON_parse env (ST_AsGeoJSON env (geom_col r)) of
        Inl e \<Rightarrow> (Inl e, w1)
      | Inr geometry_value \<Rightarrow>
     (case call_toUpperCase env type of
        Inl e \<Rightarrow> (Inl e, w1)
      | Inr upperType \<Rightarrow>
     (case map_of SUPPORTED_INDICES upperType of
        None \<Rightarrow> (Inl ''Cannot destructure property 'collection' of undefined'', w1)
      | Some cfg \<Rightarrow>
          (Inr (json 200 [(''success'', JBool True),
                          (''type'', JStr upperType),
                          (''gee_code'', JStr (trim (geeCode env geometry_value cfg upperType))),
                          (''formula'', JStr (formula cfg)),
                          (''timestamp'', JStr (toISOString env (now w1)))]), w1)))))))"

text \<open>The \<^verbatim>\<open>catch\<close> block names \<^verbatim>\<open>transactionId\<close>, which is declared inside the
  \<^verbatim>\<open>try\<close> block and not in scope: building its log line throws, before anything is
  logged or sent.\<close>

definition gee :: "'g env \<Rightarrow> string \<Rightarrow> (string \<times> jsval) list \<Rightarrow> 'g world \<Rightarrow> outcome \<times> 'g world" where
  "gee env tid req_body w =
     (case gee_try env tid req_body w of
        (Inr r, w1) \<Rightarrow> (Responded r, w1)
      | (Inl error, w1) \<Rightarrow> (Rejected ''transactionId is not defined'', w1))"

section \<open>The satellite router\<close>

text \<open>The services behind \<^verbatim>\<open>routes/satellite.js\<close>: the imagery provider reached through
  the HTTP client (\<open>Inl\<close> is a failure of the transport; otherwise the status and
  the data of the reply), the download, the processing script (what it prints, or its
  failure, and the files it leaves on disk), the paths derived from the module's
  directory, what the framework meets when it sends a file (the error, other than the
  file being gone, that checking, opening and reading the path gives, and whether the
  path names a directory, as the empty path does), and the page with which the framework
  answers a request that no handler answered.\<close>

record services =
  PLANET_API_KEY :: string
  PLANET_API_URL :: string
  axios_post :: "string \<Rightarrow> jsval \<Rightarrow> (string \<times> string) list \<Rightarrow> string + nat \<times> jsval"
  axios_head :: "jsval \<Rightarrow> string + (string \<times> jsval) list"
  axios_get :: "jsval \<Rightarrow> string option"
  pipeline :: "jsval \<Rightarrow> string \<Rightarrow> string option"
  writeFileSync_fault :: "string \<Rightarrow> string option"
  exec :: "string \<Rightarrow> (string + string) \<times> string list"
  data_dir :: string
  script_path :: string
  basename :: "string \<Rightarrow> string"
  stack :: "string \<Rightarrow> string"
  is_directory :: "string \<Rightarrow> bool"
  send_fault :: "string \<Rightarrow> string option"
  not_found_page :: "string \<Rightarrow> string \<Rightarrow> string"

text \<open>Reading a property, the first element and the length of a value.\<close>

definition member :: "jsval \<Rightarrow> string \<Rightarrow> string + jsval" where
  "member v k =
     (case v of JUndefined \<Rightarrow> Inl (''Cannot read properties of undefined (reading '' @ [CHR 0x27] @ k @ [CHR 0x27] @ '')'')
              | JNull \<Rightarrow> Inl (''Cannot read properties of null (reading '' @ [CHR 0x27] @ k @ [CHR 0x27] @ '')'')
              | JObj kvs \<Rightarrow> Inr (get_prop kvs k)
              | _ \<Rightarrow> Inr JUndefined)"

definition index0 :: "jsval \<Rightarrow> jsval" where
  "index0 v =
     (case v of JArr xs \<Rightarrow> (case xs of [] \<Rightarrow> JUndefined | x # rest \<Rightarrow> x)
              | JStr s \<Rightarrow> (case s of [] \<Rightarrow> JUndefined | c # rest \<Rightarrow> JStr [c])
              | JObj kvs \<Rightarrow> get_prop kvs ''0''
              | _ \<Rightarrow> JUndefined)"

definition js_length :: "jsval \<Rightarrow> string + jsval" where
  "js_length v =
     (case v of JArr xs \<Rightarrow> Inr (JNum (of_nat (length xs)))
              | JStr s \<Rightarrow> Inr (JNum (of_nat (length s)))
              | _ \<Rightarrow> member v ''length'')"

definition JSON_parse_value :: "'g env \<Rightarrow> jsval \<Rightarrow> string + jsval" where
  "JSON_parse_value env v = JSON_parse env (template env v)"

subsection \<open>\<^verbatim>\<open>POST /fetch-image\<close>\<close>

definition quick_search :: "jsval \<Rightarrow> jsval" where
  "quick_search geometryFilter =
     JObj [(''item_types'', JArr [JStr ''PSScene'']),
           (''filter'', JObj
              [(''type'', JStr ''AndFilter''),
               (''config'', JArr
                  [JObj [(''type'', JStr ''GeometryFilter''), (''field_name'', JStr ''geometry''),
                         (''config'', geometryFilter)],
                   JObj [(''type'', JStr ''RangeFilter''), (''field_name'', JStr ''cloud_cover''),
                         (''config'', JObj [(''lte'', JNum (1 / 10))])],
                   JObj [(''type'', JStr ''DateRangeFilter''), (''field_name'', JStr ''acquired''),
                         (''config'', JObj [(''gte'', JStr ''2023-01-01T00:00:00Z'')])],
                   JObj [(''type'', JStr ''StringInFilter''),
                         (''field_name'', JStr ''quality_category''),
                         (''config'', JArr [JStr ''standard''])]])])]"

text \<open>The request to the provider; \<^verbatim>\<open>validateStatus: status => status < 500\<close> makes the
  client throw on the other statuses.\<close>

definition planet_search :: "services \<Rightarrow> jsval \<Rightarrow> string + nat \<times> jsval" where
  "planet_search net geometryFilter =
     (case axios_post net (PLANET_API_URL net @ ''/quick-search'') (quick_search geometryFilter)
             [(''Authorization'', ''api-key '' @ PLANET_API_KEY net)] of
        Inl e \<Rightarrow> Inl e
      | Inr (st, reply) \<Rightarrow>
          (if st < 500 then Inr (st, reply)
           else Inl (''Request failed with status code '' @ show_nat st)))"

definition fetch_image_try ::
  "'g env \<Rightarrow> services \<Rightarrow> string \<Rightarrow> jsval \<Rightarrow> 'g world \<Rightarrow> (string + response) \<times> 'g world" where
  "fetch_image_try env net tid shapefileId w =
     (if \<not> truthy shapefileId then
        (Inr (json 400 [(''error'', JStr ''Missing shapefileId'')]),
         logger LWarn (tagged tid ''Missing shapefileId'') [] w)
      else
     (case q_select_by_id env shapefileId w of
        (Inl e, w1) \<Rightarrow> (Inl e, w1)
      | (Inr rows, w1) \<Rightarrow>
     (case rows of
        [] \<Rightarrow>
          (Inr (json 404 [(''error'', JStr ''Shapefile not found'')]),
           logger LWarn (tagged tid (''Shapefile not found: '' @ template env shapefileId)) [] w1)
      | r # rest \<Rightarrow>
     (case JSON_parse_value env (case bbox_col r of None \<Rightarrow> JNull
                                                  | Some b \<Rightarrow> JStr (ST_AsGeoJSON env b)) of
        Inl e \<Rightarrow> (Inl e, w1)
      | Inr bboxGeoJSON \<Rightarrow>
     (case member bboxGeoJSON ''coordinates'' of
        Inl e \<Rightarrow> (Inl e, w1)
      | Inr coordinates \<Rightarrow>
     (if \<not> truthy coordinates \<or> \<not> truthy (index0 coordinates) then
        (Inr (json 400 [(''error'', JStr ''Invalid bounding box in shapefile'')]),
         logger LWarn (tagged tid (''Invalid bbox for shapefile: '' @ template env shapefileId)) [] w1)
      else
     (case planet_search net (JObj [(''type'', JStr ''Polygon''),
                                    (''coordinates'', JArr [index0 coordinates])]) of
        Inl e \<Rightarrow> (Inl e, w1)
      | Inr (st, reply) \<Rightarrow>
     (if st \<noteq> 200 then
        (Inr \<lparr>status = st,
              payload = JsonBody (JObj [(''error'', JStr ''Failed to fetch images from Planet API''),
                                        (''details'', reply)])\<rparr>,
         logger LError (tagged tid ''Planet API error'')
           [(''status'', JNum (of_nat st)), (''data'', reply)] w1)
      else
     (case member reply ''features'' of
        Inl e \<Rightarrow> (Inl e, w1)
      | Inr features \<Rightarrow>
     (case js_length features of
        Inl e \<Rightarrow> (Inl e, w1)
      | Inr n \<Rightarrow>
          (Inr \<lparr>status = 200, payload = JsonBody features\<rparr>,
           logger LInfo (tagged tid (''Fetched '' @ template env n @ '' images'')) [] w1)))))))))))"


subsection \<open>\<^verbatim>\<open>GET /preview/:shapefileId\<close>\<close>

definition preview :: "'g env \<Rightarrow> string \<Rightarrow> 'g world \<Rightarrow> outcome \<times> 'g world" where
  "preview env shapefileId w =
     (case q_select_by_id env (JStr shapefileId) w of
        (Inr rows, w1) \<Rightarrow>
          (case rows of
             [] \<Rightarrow> (Responded (json 404 [(''error'', JStr ''Preview not found'')]), w1)
           | r # rest \<Rightarrow>
               (case (case metadata_col r of None \<Rightarrow> None
                                           | Some d \<Rightarrow> jsonb_field_text env d ''previewUrl'') of
                  None \<Rightarrow> (Responded (json 404 [(''error'', JStr ''Preview not found'')]), w1)
                | Some preview_url \<Rightarrow>
                    (if preview_url = [] then
                       (Responded (json 404 [(''error'', JStr ''Preview not found'')]), w1)
                     else (Responded (json 200 [(''previewUrl'', JStr preview_url)]), w1))))
      | (Inl error, w1) \<Rightarrow>
          (Responded (json 500 [(''error'', JStr ''Failed to fetch preview'')]),
           logger LError ''Failed to fetch preview'' [(''error'', JStr error)] w1))"


subsection \<open>\<^verbatim>\<open>POST /process-image\<close>\<close>

text \<open>\<^verbatim>\<open>UPDATE shapefiles SET metadata = metadata || $1 WHERE id = $2\<close>.\<close>

definition q_merge_metadata ::
  "'g env \<Rightarrow> jsval \<Rightarrow> jsval \<Rightarrow> 'g world \<Rightarrow> (string + unit) \<times> 'g world" where
  "q_merge_metadata env patch idv =
     statement env (\<lambda>w. case int4in env (param_text env idv) of
                          None \<Rightarrow> (Inl ''invalid input syntax for type integer'', w)
                        | Some i \<Rightarrow>
                            (Inr (),
                             write_rows
                               (map (\<lambda>r. if id_col r = i
                                         then r\<lparr>metadata_col :=
                                                  map_option (\<lambda>d. jsonb_concat env d (param_text env patch))
                                                             (metadata_col r)\<rparr>
                                         else r) (visible w)) w))"

text \<open>The first match of \<^verbatim>\<open>/marker(.+)/\<close> in the script's output: the marker followed
  by at least one character of the same line; the group is the rest of that line.\<close>

definition same_line :: "char \<Rightarrow> bool" where
  "same_line c = (c \<noteq> CHR 0x0A \<and> c \<noteq> CHR 0x0D)"

fun match_marker :: "string \<Rightarrow> string \<Rightarrow> string option" where
  "match_marker marker [] = None"
| "match_marker marker (c # cs) =
     (if take (length marker) (c # cs) = marker \<and>
         takeWhile same_line (drop (length marker) (c # cs)) \<noteq> []
      then Some (takeWhile same_line (drop (length marker) (c # cs)))
      else match_marker marker cs)"

text \<open>The promise around \<^verbatim>\<open>exec\<close>: the two trimmed paths, or the rejection.\<close>

definition run_script ::
  "services \<Rightarrow> string \<Rightarrow> string \<Rightarrow> 'g world \<Rightarrow> (string + string \<times> string) \<times> 'g world" where
  "run_script net tid command w =
     (case exec net command of
        (Inl e, files) \<Rightarrow>
          (Inl e, logger LError (tagged tid ''Python error'') [(''error'', JStr e)]
                    (w\<lparr>disk := disk w @ files\<rparr>))
      | (Inr stdout, files) \<Rightarrow>
          (case (match_marker ''geotiff:'' stdout, match_marker ''preview:'' stdout) of
             (Some g, Some p) \<Rightarrow> (Inr (trim g, trim p), w\<lparr>disk := disk w @ files\<rparr>)
           | _ \<Rightarrow> (Inl ''Invalid output paths'', w\<lparr>disk := disk w @ files\<rparr>)))"

text \<open>What the \<^verbatim>\<open>try\<close> block leaves for the response: one that it sent, or the transfer
  of a file under a name, which \<^verbatim>\<open>res.download\<close> only starts.\<close>

datatype reply = Sent response | Download string string

text \<open>The body of the \<^verbatim>\<open>try\<close>; beside its result it gives \<open>geotiffPath\<close> and
  \<open>previewPath\<close> as the \<^verbatim>\<open>finally\<close> block finds them (\<open>None\<close> while unassigned).\<close>

definition process_image_try ::
  "'g env \<Rightarrow> services \<Rightarrow> string \<Rightarrow> jsval \<Rightarrow> string \<Rightarrow> jsval \<Rightarrow> jsval \<Rightarrow> 'g world \<Rightarrow>
     (string + reply) \<times> (string option \<times> string option) \<times> 'g world" where
  "process_image_try env net tid imageUrl type shapefileId format w =
     (let imagePath = data_dir net @ ''/temp_'' @ tid @ ''.tif'';
          shpGeoJsonPath = data_dir net @ ''/shp_'' @ tid @ ''.json'' in
      case q_select_by_id env shapefileId w of
        (Inl e, w1) \<Rightarrow> (Inl e, (None, None), w1)
      | (Inr rows, w1) \<Rightarrow>
     (case rows of
        [] \<Rightarrow>
          (Inr (Sent (json 404 [(''error'', JStr ''Shapefile not found'')])), (None, None),
           logger LWarn (tagged tid (''Shapefile not found: '' @ template env shapefileId)) [] w1)
      | r # rest \<Rightarrow>
     (case writeFileSync_fault net shpGeoJsonPath of
        Some e \<Rightarrow> (Inl e, (None, None), w1)
      | None \<Rightarrow>
     (let w2 = w1\<lparr>disk := disk w1 @ [shpGeoJsonPath]\<rparr> in
      case axios_head net imageUrl of
        Inl e \<Rightarrow> (Inl e, (None, None), w2)
      | Inr headers \<Rightarrow>
     (let contentLength = parseInt env (get_prop headers ''content-length'') in
      if js_greater contentLength (Finite (100 * 1024 * 1024)) then
        (Inr (Sent (json 400 [(''error'', JStr ''Image too large (max 100MB)'')])), (None, None),
         logger LWarn
           (tagged tid (''Image too large: '' @ number_text (ToString env) contentLength @ '' bytes''))
           [] w2)
      else
     (case axios_get net imageUrl of
        Some e \<Rightarrow> (Inl e, (None, None), w2)
      | None \<Rightarrow>
     (let w3 = w2\<lparr>disk := disk w2 @ [imagePath]\<rparr> in
      case pipeline net imageUrl imagePath of
        Some e \<Rightarrow> (Inl e, (None, None), w3)
      | None \<Rightarrow>
     (let w4 = logger LInfo (tagged tid ''Image downloaded'') [(''imagePath'', JStr imagePath)] w3 in
      case run_script net tid
             (''python3 '' @ script_path net @ '' '' @ imagePath @ '' '' @ type @ '' '' @ shpGeoJsonPath)
             w4 of
        (Inl e, w5) \<Rightarrow> (Inl e, (None, None), w5)
      | (Inr (geotiffPath, previewPath), w5) \<Rightarrow>
     (case q_merge_metadata env
             (JObj [(''previewUrl'', JStr (''/data/'' @ basename net previewPath))])
             shapefileId w5 of
        (Inl e, w6) \<Rightarrow> (Inl e, (Some geotiffPath, Some previewPath), w6)
      | (Inr u, w6) \<Rightarrow>
          (Inr (Download (if format = JStr ''geotiff'' then geotiffPath else previewPath)
                         (''result_'' @ type @ ''.'' @ template env format)),
           (Some geotiffPath, Some previewPath), w6))))))))))"

text \<open>The \<^verbatim>\<open>finally\<close> block: the paths that are set and not empty are unlinked.\<close>

fun unlink_all :: "'g env \<Rightarrow> string \<Rightarrow> string list \<Rightarrow> 'g world \<Rightarrow> 'g world" where
  "unlink_all env tid [] w = w"
| "unlink_all env tid (file # rest) w =
     (case unlinkSync env file w of
        (Inr u, w1) \<Rightarrow> unlink_all env tid rest w1
      | (Inl e, w1) \<Rightarrow>
          unlink_all env tid rest
            (logger LWarn (tagged tid (''Cleanup failed: '' @ file)) [(''error'', JStr e)] w1))"

definition filter_Boolean :: "string option list \<Rightarrow> string list" where
  "filter_Boolean xs = concat (map (\<lambda>x. case x of None \<Rightarrow> [] | Some p \<Rightarrow> (if p = [] then [] else [p])) xs)"

definition process_image_finally ::
  "'g env \<Rightarrow> services \<Rightarrow> string \<Rightarrow> string option \<times> string option \<Rightarrow> 'g world \<Rightarrow> 'g world" where
  "process_image_finally env net tid paths w =
     unlink_all env tid
       (filter_Boolean [Some (data_dir net @ ''/temp_'' @ tid @ ''.tif''),
                        Some (data_dir net @ ''/shp_'' @ tid @ ''.json''),
                        fst paths, snd paths]) w"

text \<open>
  The transfer that \<^verbatim>\<open>res.download\<close> started opens the file only after the handler has
  come to its end, the \<^verbatim>\<open>finally\<close> block included. For a directory the framework
  passes the request on, and for any other failure it passes the error on; a file that is
  no longer on disk cannot be opened.
\<close>

datatype sending = FileSent | IsDirectory | SendError string

definition send_file :: "services \<Rightarrow> string \<Rightarrow> 'g world \<Rightarrow> sending" where
  "send_file net p w =
     (case send_fault net p of
        Some e \<Rightarrow> SendError e
      | None \<Rightarrow> (if is_directory net p then IsDirectory
                 else if p \<in> set (disk w) then FileSent
                 else SendError ''ENOENT: no such file or directory''))"




section \<open>The application\<close>

text \<open>A request to one of the routes of the three routers, with what its handler reads of
  it.\<close>

datatype request =
    PostUpload "upload_file list option"
  | GetList jsval jsval
  | GetOne string
  | GetGeometry string
  | PutOne string "(string \<times> jsval) list"
  | DeleteOne string
  | GetGeoJson string
  | PostFetchImage "(string \<times> jsval) list"
  | PostProcessImage "(string \<times> jsval) list"
  | GetPreview string
  | PostGee "(string \<times> jsval) list"

definition method_of :: "request \<Rightarrow> string" where
  "method_of req =
     (case req of
        PostUpload files \<Rightarrow> ''POST''
      | GetList page limit \<Rightarrow> ''GET''
      | GetOne ident \<Rightarrow> ''GET''
      | GetGeometry ident \<Rightarrow> ''GET''
      | PutOne ident req_body \<Rightarrow> ''PUT''
      | DeleteOne ident \<Rightarrow> ''DELETE''
      | GetGeoJson ident \<Rightarrow> ''GET''
      | PostFetchImage req_body \<Rightarrow> ''POST''
      | PostProcessImage req_body \<Rightarrow> ''POST''
      | GetPreview ident \<Rightarrow> ''GET''
      | PostGee req_body \<Rightarrow> ''POST'')"

text \<open>The middleware that logs every request before the routers see it.\<close>

definition http_logger :: "string \<Rightarrow> string \<Rightarrow> 'g world \<Rightarrow> 'g world" where
  "http_logger method url w = logger LHttp (method @ '' '' @ url) [] w"



section \<open>Notions used to state the properties\<close>

text \<open>What the shapefile parser puts into the \<open>geometry\<close> of a record: nothing, \<^verbatim>\<open>null\<close>,
  or a geometry object.\<close>

definition geometry_field :: "jsval \<Rightarrow> bool" where
  "geometry_field g = (case g of JUndefined \<Rightarrow> True | JNull \<Rightarrow> True | JObj kvs \<Rightarrow> True | _ \<Rightarrow> False)"

definition present :: "jsval \<Rightarrow> bool" where
  "present g = (g \<noteq> JNull \<and> g \<noteq> JUndefined)"

text \<open>Row \<open>r\<close> is what the upload stores for feature \<open>f\<close> of the dataset \<open>nm\<close> at time
  \<open>t\<close>: its geometry is the feature's, read from its JSON text by the store, and its
  bounding box is the store's envelope of that geometry.\<close>

definition persisted :: "'g env \<Rightarrow> string \<Rightarrow> nat \<Rightarrow> feature \<Rightarrow> 'g row \<Rightarrow> bool" where
  "persisted env nm t f r =
     (name_col r = nm \<and>
      ST_GeomFromGeoJSON env (JSON_stringify env (geometry f)) = Some (geom_col r) \<and>
      bbox_col r = Some (ST_Envelope env (geom_col r)) \<and>
      metadata_col r = (if truthy (properties f) then Some (JSON_stringify env (properties f)) else None) \<and>
      created_at r = t \<and> updated_at r = t)"

text \<open>The row that an update leaves in the place of \<open>r\<close>: each of the two fields is
  assigned when its value is truthy, and \<open>updated_at\<close> is set to \<open>t\<close>.\<close>

definition updated_row :: "'g env \<Rightarrow> jsval \<Rightarrow> jsval \<Rightarrow> nat \<Rightarrow> 'g row \<Rightarrow> 'g row" where
  "updated_row env name metadata t r =
     r\<lparr>name_col := (if truthy name then param_text env name else name_col r),
       metadata_col := (if truthy metadata then Some (JSON_stringify env metadata) else metadata_col r),
       updated_at := t\<rparr>"

text \<open>The script text that the export is to answer with: the template without the line
  breaks at its two ends.\<close>

definition script :: "'g env \<Rightarrow> jsval \<Rightarrow> index_config \<Rightarrow> string \<Rightarrow> string" where
  "script env geometry_value cfg upperType =
     ''var geometry = ee.Geometry('' @ JSON_stringify env geometry_value @ '');\<newline>'' @
     ''var collection = ee.ImageCollection('' @ [CHR 0x22] @ collection cfg @ [CHR 0x22] @ '')\<newline>'' @
     ''  .filterBounds(geometry)\<newline>'' @
     ''  .filterDate('2023-01-01', '2023-12-31');\<newline>'' @
     ''var image = collection.median()\<newline>'' @
     ''  .normalizedDifference('' @ JSON_stringify env (JArr (map JStr (bands cfg))) @ '');\<newline>'' @
     ''Map.centerObject(geometry, 10);\<newline>'' @
     ''Map.addLayer(image, {\<newline>'' @
     ''  min: 0,\<newline>'' @
     ''  max: 1,\<newline>'' @
     ''  palette: '' @ JSON_stringify env (JArr (map JStr (palette cfg))) @ '',\<newline>'' @
     ''  opacity: 0.8\<newline>'' @
     ''}, '' @ [CHR 0x27] @ upperType @ '' Index'' @ [CHR 0x27] @ '');''"

text \<open>No statement numbered from \<open>a\<close> up to \<open>b\<close> (exclusive) fails.\<close>

definition fault_free :: "'g env \<Rightarrow> nat \<Rightarrow> nat \<Rightarrow> bool" where
  "fault_free env a b = (\<forall>k. a \<le> k \<and> k < b \<longrightarrow> db_fault env k = None)"


text \<open>
  The internal error of a request: the error with which the \<^verbatim>\<open>try\<close> block of its route
  ends and which the \<^verbatim>\<open>catch\<close> block of the route receives, or the error of sending the
  file after the handler, which the framework passes to the error handler of the
  application. \<open>caught\<close> reads the former off the result of a \<^verbatim>\<open>try\<close> block;
  \<open>failed\<close> runs the \<^verbatim>\<open>try\<close> block of the route from the state in which the handler
  enters it. (The \<^verbatim>\<open>catch\<close> block of \<^verbatim>\<open>/gee\<close> answers nothing.)
\<close>

datatype failure = Caught string | Unhandled string

definition caught :: "(string + 'a) \<times> 'b \<Rightarrow> failure option" where
  "caught tried = (case fst tried of Inl e \<Rightarrow> Some (Caught e) | Inr v \<Rightarrow> None)"

definition process_image_failed ::
  "'g env \<Rightarrow> services \<Rightarrow> string \<Rightarrow> (string \<times> jsval) list \<Rightarrow> 'g world \<Rightarrow> failure option" where
  "process_image_failed env net tid req_body w =
     (let imageUrl = get_prop req_body ''imageUrl''; type = get_prop req_body ''type'';
          shapefileId = get_prop req_body ''shapefileId'';
          format = (case get_prop req_body ''format'' of JUndefined \<Rightarrow> JStr ''png'' | v \<Rightarrow> v);
          w0 = logger LInfo (tagged tid ''Processing image'')
                 [(''type'', type), (''shapefileId'', shapefileId)] w in
      if \<not> truthy imageUrl \<or> \<not> truthy type \<or> \<not> truthy shapefileId then None
      else
        (case call_toLowerCase type of
           Inl e \<Rightarrow> None
         | Inr lower \<Rightarrow>
             (if lower \<notin> set [''ndvi'', ''ndbi'', ''ndwi''] then None
              else
                (case process_image_try env net tid imageUrl (template env type) shapefileId format w0 of
                   (Inl e, paths, w1) \<Rightarrow> Some (Caught e)
                 | (Inr (Sent r), paths, w1) \<Rightarrow> None
                 | (Inr (Download filePath filename), paths, w1) \<Rightarrow>
                     (case send_file net filePath (process_image_finally env net tid paths w1) of
                        SendError err \<Rightarrow> Some (Unhandled err)
                      | _ \<Rightarrow> None)))))"

definition failed ::
  "'g env \<Rightarrow> services \<Rightarrow> string \<Rightarrow> string \<Rightarrow> request \<Rightarrow> 'g world \<Rightarrow> failure option" where
  "failed env net tid url req w =
     (let w0 = http_logger (method_of req) url w in
      case req of
        PostUpload files \<Rightarrow>
          caught (upload_try env tid files (logger LInfo (tagged tid ''Starting shapefile upload'') [] w0))
      | GetList page limit \<Rightarrow> caught (list_try env page limit w0)
      | GetOne ident \<Rightarrow> caught (q_select_by_id env (JStr ident) w0)
      | GetGeometry ident \<Rightarrow> caught (geometry_try env ident w0)
      | PutOne ident req_body \<Rightarrow>
          (if \<not> truthy (get_prop req_body ''name'') \<and> \<not> truthy (get_prop req_body ''metadata'')
           then None
           else (case put_assignments env (get_prop req_body ''name'')
                        (get_prop req_body ''metadata'') ident of
                   (updates, values, counter) \<Rightarrow> caught (q_update env updates counter values w0)))
      | DeleteOne ident \<Rightarrow> caught (q_delete_by_id env (JStr ident) w0)
      | GetGeoJson ident \<Rightarrow> caught (q_select_by_id env (JStr ident) w0)
      | PostFetchImage req_body \<Rightarrow>
          caught (fetch_image_try env net tid (get_prop req_body ''shapefileId'')
                    (logger LInfo
                       (tagged tid (''Fetching satellite images for shapefile: '' @
                          template env (get_prop req_body ''shapefileId''))) [] w0))
      | PostProcessImage req_body \<Rightarrow> process_image_failed env net tid req_body w0
      | GetPreview ident \<Rightarrow> caught (q_select_by_id env (JStr ident) w0)
      | PostGee req_body \<Rightarrow> None)"







text \<open>A run of statements from \<open>w\<close> to \<open>w'\<close> with the result \<open>r\<close> stops at the
  first statement that fails: a statement that failed is the last one sent, and its
  error is the result.\<close>

definition fails_fast :: "'g env \<Rightarrow> 'g world \<Rightarrow> string + 'a \<Rightarrow> 'g world \<Rightarrow> bool" where
  "fails_fast env w r w' =
     (issued w \<le> issued w' \<and>
      (\<forall>k e. issued w \<le> k \<and> k < issued w' \<and> db_fault env k = Some e \<longrightarrow>
             r = Inl e \<and> Suc k = issued w'))"

section \<open>A concrete setting\<close>

text \<open>A small instance of the surroundings, on which the theorems are exercised: a
  geometry is held by its text, its envelope is that text marked, and the parser finds
  three records at every path, the second without geometry.\<close>

definition example_stringify :: "jsval \<Rightarrow> string" where
  "example_stringify v =
     (case v of JObj kvs \<Rightarrow> ''{'' @ concat (map fst kvs) @ ''}''
              | JArr xs \<Rightarrow> ''['' @ concat (map (\<lambda>x. case x of JStr s \<Rightarrow> s | _ \<Rightarrow> ''?'') xs) @ '']''
              | JStr s \<Rightarrow> s
              | _ \<Rightarrow> ''null'')"

text \<open>For the texts that the setting meets: the upper-case form of a text of ASCII, and
  the numbers that a few numerals are read as.\<close>

definition example_upper :: "string \<Rightarrow> string" where
  "example_upper s =
     map (\<lambda>c. case map_of (zip ''abcdefghijklmnopqrstuvwxyz'' ''ABCDEFGHIJKLMNOPQRSTUVWXYZ'') c of
                 Some d \<Rightarrow> d | None \<Rightarrow> c) s"

definition example_number :: "jsval \<Rightarrow> number" where
  "example_number v =
     (case v of
        JNum r \<Rightarrow> Finite r
      | JStr s \<Rightarrow> (case map_of [(''0'', 0), (''1'', 1), (''2'', 2), (''10'', 10), (''25'', 25),
                                  (''1024'', 1024)] s of
                    Some r \<Rightarrow> Finite r | None \<Rightarrow> NaN)
      | _ \<Rightarrow> NaN)"

definition example_records :: "feature list" where
  "example_records =
     [\<lparr>geometry = JObj [(''Point'', JNull)], properties = JObj [(''kind'', JStr ''well'')]\<rparr>,
      \<lparr>geometry = JNull, properties = JObj []\<rparr>,
      \<lparr>geometry = JObj [(''Polygon'', JNull)], properties = JNull\<rparr>]"

definition example_env :: "string env" where
  "example_env =
     \<lparr>JSON_stringify = example_stringify,
      JSON_parse = (\<lambda>s. Inr (JStr s)),
      ToString = example_stringify,
      toUpperCase = example_upper,
      ToNumber = example_number,
      parseInt = example_number,
      toISOString = (\<lambda>t. ''T'' @ show_nat t),
      shapefile_open = (\<lambda>p. Inr (map Record example_records)),
      unlink_fault = (\<lambda>p. None),
      prepareValue = example_stringify,
      int4in = (\<lambda>s. if s = ''1'' then Some 1 else if s = ''2'' then Some 2 else None),
      int8in = (\<lambda>s. case example_number (JStr s) of Finite r \<Rightarrow> Some \<lfloor>r\<rfloor> | _ \<Rightarrow> None),
      ST_GeomFromGeoJSON = (\<lambda>s. if s = ''null'' then None else Some s),
      ST_Envelope = (\<lambda>g. ''box'' @ g),
      ST_AsGeoJSON = (\<lambda>g. g),
      geometry_out = (\<lambda>g. g),
      jsonb_out = (\<lambda>s. JStr s),
      jsonb_concat = (\<lambda>a b. a @ b),
      jsonb_field_text = (\<lambda>d k. None),
      db_fault = (\<lambda>k. None),
      connect_fault = None\<rparr>"

definition example_row :: "string row" where
  "example_row =
     \<lparr>id_col = 1, name_col = ''roads.shp'', geom_col = ''{LineString}'',
      bbox_col = Some ''box{LineString}'', metadata_col = None, created_at = 3, updated_at = 3\<rparr>"

definition example_world :: "string world" where
  "example_world =
     \<lparr>committed = [example_row], txn = Idle, next_id = 2, now = 5, issued = 0, borrowed = 0,
      disk = [''uploads/1.shp'', ''uploads/2.shx'', ''uploads/3.dbf''], log_lines = []\<rparr>"

definition example_files :: "upload_file list" where
  "example_files =
     [\<lparr>originalname = ''wells.SHP'', path = ''uploads/1.shp''\<rparr>,
      \<lparr>originalname = ''wells.shx'', path = ''uploads/2.shx''\<rparr>,
      \<lparr>originalname = ''wells.dbf'', path = ''uploads/3.dbf''\<rparr>]"

text \<open>Variations of the setting: the store loses the connection at the fifth statement;
  the parser finds no record with a geometry; uploads of two files, and of three files
  without an attribute table.\<close>

definition failing_env :: "string env" where
  "failing_env = example_env\<lparr>db_fault := (\<lambda>k. if k = 4 then Some ''connection lost'' else None)\<rparr>"

definition empty_records :: "feature list" where
  "empty_records = [\<lparr>geometry = JNull, properties = JObj []\<rparr>,
                    \<lparr>geometry = JUndefined, properties = JNull\<rparr>]"

definition empty_env :: "string env" where
  "empty_env = example_env\<lparr>shapefile_open := (\<lambda>p. Inr (map Record empty_records))\<rparr>"

definition two_files :: "upload_file list" where
  "two_files =
     [\<lparr>originalname = ''wells.shp'', path = ''uploads/1.shp''\<rparr>,
      \<lparr>originalname = ''wells.shx'', path = ''uploads/2.shx''\<rparr>]"

definition files_without_dbf :: "upload_file list" where
  "files_without_dbf =
     [\<lparr>originalname = ''wells.shp'', path = ''uploads/1.shp''\<rparr>,
      \<lparr>originalname = ''wells.shx'', path = ''uploads/2.shx''\<rparr>,
      \<lparr>originalname = ''wells.prj'', path = ''uploads/3.prj''\<rparr>]"

text \<open>Two bodies for \<^verbatim>\<open>PUT /:id\<close>: one with a metadata object only, one with an empty
  name only.\<close>

definition metadata_only :: "(string \<times> jsval) list" where
  "metadata_only = [(''metadata'', JObj [(''surveyed'', JBool True)])]"

definition empty_name_only :: "(string \<times> jsval) list" where
  "empty_name_only = [(''name'', JStr '''')]"



text \<open>A body for \<^verbatim>\<open>POST /gee\<close> whose \<open>type\<close> is a number.\<close>

definition numeric_type :: "(string \<times> jsval) list" where
  "numeric_type = [(''type'', JNum 123), (''shapefileId'', JNum 1)]"





section \<open>Proofs\<close>

subsection \<open>Frames of the elementary operations\<close>

lemma logger_frame [simp]:
  "committed (logger l m k w) = committed w"
  "txn (logger l m k w) = txn w"
  "next_id (logger l m k w) = next_id w"
  "now (logger l m k w) = now w"
  "issued (logger l m k w) = issued w"
  "borrowed (logger l m k w) = borrowed w"
  "disk (logger l m k w) = disk w"
  by (simp_all add: logger_def)

lemma fault_free_empty [simp]: "fault_free env a a"
  by (auto simp: fault_free_def)

lemma fault_free_step: "db_fault env a = None \<Longrightarrow> fault_free env a (Suc a)"
  by (auto simp: fault_free_def less_Suc_eq)

lemma fault_free_trans:
  "fault_free env a b \<Longrightarrow> fault_free env b c \<Longrightarrow> fault_free env a c"
  by (auto simp: fault_free_def) (metis not_le_imp_less)

lemma read_features_Inr:
  "read_features src acc = Inr fs \<Longrightarrow>
   \<exists>recs. src = map Record recs \<and> fs = acc @ filter (\<lambda>f. truthy (geometry f)) recs"
proof (induction src acc rule: read_features.induct)
  case (1 features)
  then show ?case by simp
next
  case (2 e rest features)
  then show ?case by simp
next
  case (3 v rest features)
  then obtain recs where "rest = map Record recs"
    and "fs = (if truthy (geometry v) then features @ [v] else features) @ filter (\<lambda>f. truthy (geometry f)) recs"
    by auto
  then have "Record v # rest = map Record (v # recs) \<and> fs = features @ filter (\<lambda>f. truthy (geometry f)) (v # recs)"
    by simp
  then show ?case by (rule exI [of _ "v # recs"])
qed

lemma read_features_records:
  "read_features (map Record recs) acc = Inr (acc @ filter (\<lambda>f. truthy (geometry f)) recs)"
  by (induction recs arbitrary: acc) auto

lemma truthy_present: "geometry_field g \<Longrightarrow> truthy g = present g"
  by (cases g) (simp_all add: geometry_field_def present_def)

lemma filter_truthy_present:
  "\<forall>f\<in>set recs. geometry_field (geometry f) \<Longrightarrow>
   filter (\<lambda>f. truthy (geometry f)) recs = filter (\<lambda>f. present (geometry f)) recs"
  by (rule filter_cong) (simp_all add: truthy_present)

lemma q_select_envelope_Open:
  assumes "txn w = Open rs" and "q_select_envelope env t w = (r, w')"
  shows "committed w' = committed w \<and> next_id w' = next_id w \<and> now w' = now w \<and>
         borrowed w' = borrowed w \<and> disk w' = disk w \<and> 
         (case r of Inl e \<Rightarrow> txn w' = Failed
                  | Inr b \<Rightarrow> txn w' = Open rs \<and> (\<exists>g. ST_GeomFromGeoJSON env t = Some g \<and> b = ST_Envelope env g))"
  using assms
  by (auto simp: q_select_envelope_def statement_def fail_txn_def Let_def split: option.splits)

lemma q_insert_Open:
  assumes "txn w = Open rs" and "q_insert env nm t md bb w = (r, w')"
  shows "committed w' = committed w \<and> now w' = now w \<and>
         borrowed w' = borrowed w \<and> disk w' = disk w \<and> 
         (case r of Inl e \<Rightarrow> txn w' = Failed
                  | Inr u \<Rightarrow> next_id w' = next_id w + 1 \<and>
                      (\<exists>g. ST_GeomFromGeoJSON env t = Some g \<and>
                           txn w' = Open (rs @ [\<lparr>id_col = next_id w, name_col = nm, geom_col = g,
                                   bbox_col = bb, metadata_col = md, created_at = now w, updated_at = now w\<rparr>])))"
  using assms
  by (auto simp: q_insert_def statement_def fail_txn_def visible_def write_rows_def Let_def split: option.splits)

lemma statement_issued:
  assumes "statement env run w = (Inr v, w')" and "\<And>w1 r1 w2. run w1 = (r1, w2) \<Longrightarrow> issued w2 = issued w1"
  shows "issued w' = Suc (issued w) \<and> db_fault env (issued w) = None"
proof -
  from assms(1) have nf: "db_fault env (issued w) = None"
    by (auto simp: statement_def Let_def split: option.splits)
  obtain r1 w2 where run: "run (w\<lparr>issued := Suc (issued w)\<rparr>) = (r1, w2)" by force
  from assms(2) [OF run] have "issued w2 = Suc (issued w)" by simp
  with assms(1) nf run show ?thesis
    by (auto simp: statement_def Let_def split: txn_state.splits sum.splits)
qed

lemma q_select_envelope_issued:
  "q_select_envelope env t w = (Inr b, w') \<Longrightarrow> issued w' = Suc (issued w) \<and> db_fault env (issued w) = None"
  unfolding q_select_envelope_def
  by (erule statement_issued) (auto split: option.splits)

lemma q_insert_issued:
  "q_insert env nm t md bb w = (Inr u, w') \<Longrightarrow> issued w' = Suc (issued w) \<and> db_fault env (issued w) = None"
  unfolding q_insert_def
  by (erule statement_issued) (auto simp: write_rows_def split: option.splits txn_state.splits)

lemma q_delete_by_name_issued:
  "q_delete_by_name env nm w = (Inr n, w') \<Longrightarrow> issued w' = Suc (issued w) \<and> db_fault env (issued w) = None"
  unfolding q_delete_by_name_def
  by (erule statement_issued) (auto simp: write_rows_def split: option.splits txn_state.splits)

lemma q_begin_issued:
  "q_begin env w = (Inr u, w') \<Longrightarrow> issued w' = Suc (issued w) \<and> db_fault env (issued w) = None"
  by (auto simp: q_begin_def Let_def split: option.splits txn_state.splits)

lemma q_commit_issued:
  "q_commit env w = (Inr u, w') \<Longrightarrow> issued w' = Suc (issued w) \<and> db_fault env (issued w) = None"
  by (auto simp: q_commit_def Let_def split: option.splits txn_state.splits)

lemma insert_features_issued:
  "insert_features env nm fs w = (Inr u, w') \<Longrightarrow>
   issued w \<le> issued w' \<and> fault_free env (issued w) (issued w')"
proof (induction fs arbitrary: w)
  case Nil
  then show ?case by simp
next
  case (Cons f fs)
  let ?t = "JSON_stringify env (geometry f)"
  let ?md = "if truthy (properties f) then Some (JSON_stringify env (properties f)) else None"
  from Cons.prems obtain b w1 where s1: "q_select_envelope env ?t w = (Inr b, w1)"
    by (auto simp: Let_def split: prod.splits sum.splits)
  with Cons.prems obtain u2 w2 where s2: "q_insert env nm ?t ?md (Some b) w1 = (Inr u2, w2)"
    by (auto simp: Let_def split: prod.splits sum.splits)
  with Cons.prems s1 have rest: "insert_features env nm fs w2 = (Inr u, w')" by simp
  note i1 = q_select_envelope_issued [OF s1] and i2 = q_insert_issued [OF s2]
    and ih = Cons.IH [OF rest]
  have "fault_free env (issued w) (issued w2)"
    using i1 i2 by (metis fault_free_step fault_free_trans)
  with ih i1 i2 show ?case by (auto intro: fault_free_trans)
qed


lemma insert_features_Open:
  assumes "txn w = Open rs" and "insert_features env nm fs w = (r, w')"
  shows "committed w' = committed w \<and> now w' = now w \<and>
         borrowed w' = borrowed w \<and> disk w' = disk w \<and>
         (case r of Inl e \<Rightarrow> txn w' = Failed
                  | Inr u \<Rightarrow> (\<exists>new. txn w' = Open (rs @ new) \<and>
                       list_all2 (persisted env nm (now w)) fs new \<and>
                       map id_col new = map (\<lambda>i. next_id w + int i) [0..<length fs]))"
  using assms
proof (induction fs arbitrary: w rs)
  case Nil
  then show ?case by auto
next
  case (Cons f fs)
  let ?t = "JSON_stringify env (geometry f)"
  obtain r1 w1 where s1: "q_select_envelope env ?t w = (r1, w1)" by force
  note e1 = q_select_envelope_Open [OF Cons.prems(1) s1]
  show ?case
  proof (cases r1)
    case (Inl e)
    with Cons.prems(2) s1 e1 show ?thesis by auto
  next
    case (Inr b)
    let ?md = "if truthy (properties f) then Some (JSON_stringify env (properties f)) else None"
    from Inr e1 obtain g where g: "ST_GeomFromGeoJSON env ?t = Some g" "b = ST_Envelope env g"
      and o1: "txn w1 = Open rs" by auto
    obtain r2 w2 where s2: "q_insert env nm ?t ?md (Some b) w1 = (r2, w2)" by force
    note e2 = q_insert_Open [OF o1 s2]
    show ?thesis
    proof (cases r2)
      case (Inl e)
      with Cons.prems(2) s1 s2 \<open>r1 = Inr b\<close> e1 e2 show ?thesis by auto
    next
      case (Inr u)
      let ?row = "\<lparr>id_col = next_id w1, name_col = nm, geom_col = g, bbox_col = Some b,
                     metadata_col = ?md, created_at = now w1, updated_at = now w1\<rparr>"
      from Inr e2 g have o2: "txn w2 = Open ((rs @ [?row]))" and n2: "next_id w2 = next_id w1 + 1"
        by auto
      from Cons.prems(2) s1 s2 \<open>r1 = Inr b\<close> Inr
      have rest: "insert_features env nm fs w2 = (r, w')" by simp
      note ih = Cons.IH [OF o2 rest]
      show ?thesis
      proof (cases r)
        case (Inl e)
        with ih e1 e2 show ?thesis by simp
      next
        case (Inr u')
        with ih obtain new where new: "txn w' = Open ((rs @ [?row]) @ new)"
          "list_all2 (persisted env nm (now w2)) fs new"
          "map id_col new = map (\<lambda>i. next_id w2 + int i) [0..<length fs]" by auto
        have p: "persisted env nm (now w) f ?row"
          using g e1 by (simp add: persisted_def)
        have ids: "map id_col (?row # new) = map (\<lambda>i. next_id w + int i) [0..<length (f # fs)]"
        proof -
          have "[0..<length (f # fs)] = 0 # map Suc [0..<length fs]"
            by (simp add: upt_conv_Cons map_Suc_upt del: upt_Suc)
          then show ?thesis using new(3) n2 e1 by (simp add: comp_def del: upt_Suc)
        qed
        have "txn w' = Open (rs @ (?row # new))" using new(1) by simp
        moreover have "list_all2 (persisted env nm (now w)) (f # fs) (?row # new)"
          using p new(2) e1 e2 by simp
        ultimately show ?thesis using ids Inr ih e1 e2 by (simp del: upt_Suc)
      qed
    qed
  qed
qed

lemma q_begin_Idle:
  assumes "txn w = Idle" and "q_begin env w = (r, w')"
  shows "committed w' = committed w \<and> next_id w' = next_id w \<and> now w' = now w \<and>
         borrowed w' = borrowed w \<and> disk w' = disk w \<and>
         (case r of Inl e \<Rightarrow> txn w' = Idle | Inr u \<Rightarrow> txn w' = Open (committed w))"
  using assms by (auto simp: q_begin_def fail_txn_def Let_def split: option.splits)

lemma q_delete_by_name_Open:
  assumes "txn w = Open rs" and "q_delete_by_name env nm w = (r, w')"
  shows "committed w' = committed w \<and> next_id w' = next_id w \<and> now w' = now w \<and>
         borrowed w' = borrowed w \<and> disk w' = disk w \<and>
         (case r of Inl e \<Rightarrow> txn w' = Failed
                  | Inr n \<Rightarrow> txn w' = Open (filter (\<lambda>r. name_col r \<noteq> nm) rs))"
  using assms
  by (auto simp: q_delete_by_name_def statement_def fail_txn_def visible_def write_rows_def Let_def
           split: option.splits)

lemma q_commit_Open:
  assumes "txn w = Open rs" and "q_commit env w = (r, w')"
  shows "txn w' = Idle \<and> next_id w' = next_id w \<and> now w' = now w \<and>
         borrowed w' = borrowed w \<and> disk w' = disk w \<and>
         (case r of Inl e \<Rightarrow> committed w' = committed w | Inr u \<Rightarrow> committed w' = rs)"
  using assms by (auto simp: q_commit_def Let_def split: option.splits)

lemma q_rollback_frame:
  assumes "q_rollback env w = (r, w')"
  shows "txn w' = Idle \<and> committed w' = committed w \<and> next_id w' = next_id w \<and> now w' = now w \<and>
         borrowed w' = borrowed w \<and> disk w' = disk w"
  using assms by (auto simp: q_rollback_def Let_def split: option.splits)

lemma upload_txn_Idle:
  assumes "txn w = Idle" and "upload_txn env tid shpFile fs w = (r, w')"
  shows "now w' = now w \<and> borrowed w' = borrowed w \<and> disk w' = disk w \<and>
         (case r of
            Inl e \<Rightarrow> committed w' = committed w
          | Inr resp \<Rightarrow>
              resp = json 201 [(''success'', JBool True), (''count'', JNum (of_nat (length fs))),
                               (''name'', JStr (originalname shpFile))] \<and>
              txn w' = Idle \<and> fault_free env (issued w) (issued w') \<and>
              (\<exists>new. committed w' =
                       filter (\<lambda>r. name_col r \<noteq> originalname shpFile) (committed w) @ new \<and>
                     list_all2 (persisted env (originalname shpFile) (now w)) fs new \<and>
                     map id_col new = map (\<lambda>i. next_id w + int i) [0..<length fs]))"
proof -
  let ?nm = "originalname shpFile"
  obtain r1 w1 where s1: "q_begin env w = (r1, w1)" by force
  note e1 = q_begin_Idle [OF assms(1) s1]
  show ?thesis
  proof (cases r1)
    case (Inl e)
    with assms(2) s1 e1 show ?thesis by (auto simp: upload_txn_def)
  next
    case b: (Inr u1)
    with e1 have o1: "txn w1 = Open (committed w)" by simp
    obtain r2 w2 where s2: "q_delete_by_name env ?nm w1 = (r2, w2)" by force
    note e2 = q_delete_by_name_Open [OF o1 s2]
    show ?thesis
    proof (cases r2)
      case (Inl e)
      with assms(2) s1 s2 b e1 e2 show ?thesis by (auto simp: upload_txn_def)
    next
      case d: (Inr n)
      with e2 have o2: "txn w2 = Open (filter (\<lambda>r. name_col r \<noteq> ?nm) (committed w))" by simp
      obtain r3 w3 where s3: "insert_features env ?nm fs w2 = (r3, w3)" by force
      note e3 = insert_features_Open [OF o2 s3]
      show ?thesis
      proof (cases r3)
        case (Inl e)
        with assms(2) s1 s2 s3 b d e1 e2 e3 show ?thesis by (auto simp: upload_txn_def)
      next
        case i: (Inr u3)
        with e3 obtain new where
          o3: "txn w3 = Open (filter (\<lambda>r. name_col r \<noteq> ?nm) (committed w) @ new)"
          and new: "list_all2 (persisted env ?nm (now w2)) fs new"
                   "map id_col new = map (\<lambda>i. next_id w2 + int i) [0..<length fs]"
          by auto
        obtain r4 w4 where s4: "q_commit env w3 = (r4, w4)" by force
        note e4 = q_commit_Open [OF o3 s4]
        show ?thesis
        proof (cases r4)
          case (Inl e)
          with assms(2) s1 s2 s3 s4 b d i e1 e2 e3 e4 show ?thesis
            by (auto simp: upload_txn_def)
        next
          case c: (Inr u4)
          from assms(2) s1 s2 s3 s4 b d i c
          have r: "r = Inr (json 201 [(''success'', JBool True), (''count'', JNum (of_nat (length fs))),
                               (''name'', JStr ?nm)])"
            and w': "w' = logger LInfo
                (tagged tid (''Successfully saved '' @ show_nat (length fs) @ '' features'')) [] w4"
            by (auto simp: upload_txn_def)
          from new e1 e2 have n': "list_all2 (persisted env ?nm (now w)) fs new"
            "map id_col new = map (\<lambda>i. next_id w + int i) [0..<length fs]" by simp_all
          have ff: "fault_free env (issued w) (issued w')"
          proof -
            note i1 = q_begin_issued [OF s1 [unfolded b]]
              and i2 = q_delete_by_name_issued [OF s2 [unfolded d]]
              and i3 = insert_features_issued [OF s3 [unfolded i]]
              and i4 = q_commit_issued [OF s4 [unfolded c]]
            have "fault_free env (issued w) (issued w2)"
              using i1 i2 by (metis fault_free_step fault_free_trans)
            moreover have "fault_free env (issued w3) (issued w4)"
              using i4 by (metis fault_free_step)
            ultimately have "fault_free env (issued w) (issued w4)"
              using i3 by (blast intro: fault_free_trans)
            then show ?thesis by (simp add: w')
          qed
          from r w' c e1 e2 e3 e4 n' ff show ?thesis by auto
        qed
      qed
    qed
  qed
qed

lemma upload_catch_frame:
  assumes "upload_catch env tid dbError w = (r, w')"
  shows "(\<exists>e. r = Inl e) \<and> txn w' = Idle \<and> committed w' = committed w \<and> now w' = now w \<and>
         borrowed w' = borrowed w \<and> disk w' = disk w"
proof -
  obtain r1 w1 where s1: "q_rollback env w = (r1, w1)" by force
  note e1 = q_rollback_frame [OF s1]
  from assms s1 e1 show ?thesis
    by (cases r1) (auto simp: upload_catch_def)
qed

lemma cleanup_frame:
  "committed (cleanup env tid files w) = committed w \<and> txn (cleanup env tid files w) = txn w \<and>
   borrowed (cleanup env tid files w) = borrowed w \<and> now (cleanup env tid files w) = now w \<and>
   issued (cleanup env tid files w) = issued w \<and> next_id (cleanup env tid files w) = next_id w"
  by (induction files arbitrary: w)
     (auto simp: unlinkSync_def split: option.splits)

lemma pool_connect_frame:
  assumes "pool_connect env w = (r, w')"
  shows "committed w' = committed w \<and> txn w' = txn w \<and> next_id w' = next_id w \<and> now w' = now w \<and>
         issued w' = issued w \<and> disk w' = disk w \<and>
         (case r of Inl e \<Rightarrow> borrowed w' = borrowed w | Inr u \<Rightarrow> borrowed w' = Suc (borrowed w))"
  using assms by (auto simp: pool_connect_def split: option.splits)

lemma upload_finally_frame:
  "committed (upload_finally env tid files w) = committed w \<and>
   txn (upload_finally env tid files w) = txn w \<and>
   borrowed (upload_finally env tid files w) = borrowed w - 1 \<and>
   now (upload_finally env tid files w) = now w \<and>
   issued (upload_finally env tid files w) = issued w \<and>
   next_id (upload_finally env tid files w) = next_id w"
  by (simp add: upload_finally_def cleanup_frame release_def)

text \<open>The three ways in which the body of the outer \<^verbatim>\<open>try\<close> ends.\<close>

lemma upload_try_outcome:
  assumes "txn w = Idle" and "upload_try env tid files w = (r, w')"
  shows "txn w' = Idle \<and> borrowed w' = borrowed w \<and> now w' = now w \<and>
    ((\<exists>e. r = Inl e \<and> committed w' = committed w) \<or>
     (\<exists>resp. r = Inr resp \<and> status resp = 400 \<and> committed w' = committed w \<and>
             disk w' = disk w \<and> issued w' = issued w \<and> next_id w' = next_id w) \<or>
     (\<exists>fs shp recs new.
         files = Some fs \<and> 3 \<le> length fs \<and>
         find (\<lambda>f. endsWith (toLowerCase (originalname f)) ''.shp'') fs = Some shp \<and>
         shapefile_open env (path shp) = Inr (map Record recs) \<and>
         r = Inr (json 201 [(''success'', JBool True),
                            (''count'', JNum (of_nat (length (filter (\<lambda>f. truthy (geometry f)) recs)))),
                            (''name'', JStr (originalname shp))]) \<and>
         fault_free env (issued w) (issued w') \<and>
         committed w' = filter (\<lambda>r. name_col r \<noteq> originalname shp) (committed w) @ new \<and>
         list_all2 (persisted env (originalname shp) (now w))
                   (filter (\<lambda>f. truthy (geometry f)) recs) new \<and>
         map id_col new =
           map (\<lambda>i. next_id w + int i) [0..<length (filter (\<lambda>f. truthy (geometry f)) recs)]))"
proof (cases files)
  case None
  with assms show ?thesis by (auto simp: upload_try_def json_def)
next
  case (Some fs)
  show ?thesis
  proof (cases "length fs < 3")
    case True
    with Some assms show ?thesis by (auto simp: upload_try_def json_def)
  next
    case long: False
    show ?thesis
    proof (cases "find (\<lambda>f. endsWith (toLowerCase (originalname f)) ''.shp'') fs")
      case None
      with Some long assms show ?thesis by (auto simp: upload_try_def json_def)
    next
      case shp: (Some shpFile)
      let ?w1 = "logger LDebug (tagged tid (''Processing shapefile: '' @ path shpFile)) [] w"
      show ?thesis
      proof (cases "shapefile_open env (path shpFile)")
        case (Inl e)
        with Some long shp assms show ?thesis
          by (auto simp: upload_try_def)
      next
        case src: (Inr source)
        show ?thesis
        proof (cases "read_features source []")
          case (Inl e)
          with Some long shp src assms show ?thesis
            by (auto simp: upload_try_def)
        next
          case feats: (Inr features)
          from read_features_Inr [OF feats] obtain recs where
            recs: "source = map Record recs" "features = filter (\<lambda>f. truthy (geometry f)) recs"
            by auto
          show ?thesis
          proof (cases "length features = 0")
            case True
            with Some long shp src feats assms show ?thesis
              by (auto simp: upload_try_def json_def)
          next
            case nonempty: False
            let ?w2 = "logger LInfo (tagged tid (''Read '' @ show_nat (length features) @ '' features'')) [] ?w1"
            obtain rc w3 where c: "pool_connect env ?w2 = (rc, w3)" by force
            note ec = pool_connect_frame [OF c]
            show ?thesis
            proof (cases rc)
              case (Inl e)
              with c Some long shp src feats nonempty assms(2)
              have "r = Inl e" "w' = w3"
                by (auto simp: upload_try_def Let_def)
              with ec Inl assms(1) show ?thesis by simp
            next
              case conn: (Inr u)
              with ec assms(1) have f3: "txn w3 = Idle" "committed w3 = committed w"
                "borrowed w3 = Suc (borrowed w)" "now w3 = now w" "next_id w3 = next_id w"
                "issued w3 = issued w"
                by simp_all
              obtain rt w4 where t: "upload_txn env tid shpFile features w3 = (rt, w4)" by force
              note et = upload_txn_Idle [OF f3(1) t]
              show ?thesis
              proof (cases rt)
                case (Inl dbError)
                obtain rk w5 where k: "upload_catch env tid dbError w4 = (rk, w5)" by force
                note ek = upload_catch_frame [OF k]
                from Inl t k c conn Some long shp src feats nonempty assms(2)
                have "r = rk" "w' = upload_finally env tid fs w5"
                  by (auto simp: upload_try_def Let_def)
                with ek et Inl f3 show ?thesis
                  by (auto simp: upload_finally_frame)
              next
                case ok: (Inr resp)
                from ok t c conn Some long shp src feats nonempty assms(2)
                have rw: "r = Inr resp" "w' = upload_finally env tid fs w4"
                  by (auto simp: upload_try_def Let_def)
                from et ok f3 recs obtain new where
                  n: "resp = json 201 [(''success'', JBool True),
                            (''count'', JNum (of_nat (length (filter (\<lambda>f. truthy (geometry f)) recs)))),
                            (''name'', JStr (originalname shpFile))]"
                     "txn w4 = Idle" "borrowed w4 = Suc (borrowed w)" "now w4 = now w"
                     "fault_free env (issued w) (issued w4)"
                     "committed w4 = filter (\<lambda>r. name_col r \<noteq> originalname shpFile) (committed w) @ new"
                     "list_all2 (persisted env (originalname shpFile) (now w))
                        (filter (\<lambda>f. truthy (geometry f)) recs) new"
                     "map id_col new =
                        map (\<lambda>i. next_id w + int i) [0..<length (filter (\<lambda>f. truthy (geometry f)) recs)]"
                  by auto
                have fr: "txn w' = Idle" "borrowed w' = borrowed w" "now w' = now w"
                  "fault_free env (issued w) (issued w')"
                  "committed w' = filter (\<lambda>r. name_col r \<noteq> originalname shpFile) (committed w) @ new"
                  using rw n by (simp_all add: upload_finally_frame)
                have "3 \<le> length fs" using long by simp
                with fr n rw Some shp src recs show ?thesis by blast
              qed
            qed
          qed
        qed
      qed
    qed
  qed
qed


lemma upload_outcome:
  assumes "txn w = Idle" and "upload env tid files w = (resp, w')"
  shows "txn w' = Idle \<and> borrowed w' = borrowed w \<and> now w' = now w \<and>
    ((status resp = 500 \<and> committed w' = committed w) \<or>
     (status resp = 400 \<and> committed w' = committed w \<and>
             disk w' = disk w \<and> issued w' = issued w \<and> next_id w' = next_id w) \<or>
     (\<exists>fs shp recs new.
         files = Some fs \<and> 3 \<le> length fs \<and>
         find (\<lambda>f. endsWith (toLowerCase (originalname f)) ''.shp'') fs = Some shp \<and>
         shapefile_open env (path shp) = Inr (map Record recs) \<and>
         resp = json 201 [(''success'', JBool True),
                          (''count'', JNum (of_nat (length (filter (\<lambda>f. truthy (geometry f)) recs)))),
                          (''name'', JStr (originalname shp))] \<and>
         fault_free env (issued w) (issued w') \<and>
         committed w' = filter (\<lambda>r. name_col r \<noteq> originalname shp) (committed w) @ new \<and>
         list_all2 (persisted env (originalname shp) (now w))
                   (filter (\<lambda>f. truthy (geometry f)) recs) new \<and>
         map id_col new =
           map (\<lambda>i. next_id w + int i) [0..<length (filter (\<lambda>f. truthy (geometry f)) recs)]))"
proof -
  let ?w0 = "logger LInfo (tagged tid ''Starting shapefile upload'') [] w"
  obtain r w1 where t: "upload_try env tid files ?w0 = (r, w1)" by force
  have "txn ?w0 = Idle" using assms(1) by simp
  note o = upload_try_outcome [OF this t]
  show ?thesis
  proof (cases r)
    case (Inl error)
    with assms(2) t have "resp = json 500 [(''error'', JStr ''Failed to process shapefile'')]"
      and "w' = logger LError (tagged tid ''Processing failed'') [(''error'', JStr error)] w1"
      by (simp_all add: upload_def)
    with o Inl show ?thesis by (simp add: json_def)
  next
    case (Inr r')
    with assms(2) t have "resp = r'" "w' = w1" by (simp_all add: upload_def)
    with o Inr show ?thesis by simp
  qed
qed

text \<open>An upload of a readable dataset with a feature to store, whose geometries the database
  accepts, is answered 201 when neither the pool nor a statement fails.\<close>

lemma insert_features_succeeds:
  assumes "txn w = Open rs" and "\<forall>k. db_fault env k = None"
    and "\<forall>f\<in>set fs. ST_GeomFromGeoJSON env (JSON_stringify env (geometry f)) \<noteq> None"
  shows "\<exists>w'. insert_features env nm fs w = (Inr (), w')"
  using assms
proof (induction fs arbitrary: w rs)
  case Nil
  then show ?case by simp
next
  case (Cons f fs)
  let ?t = "JSON_stringify env (geometry f)"
  let ?md = "if truthy (properties f) then Some (JSON_stringify env (properties f)) else None"
  from Cons.prems(3) obtain g where g: "ST_GeomFromGeoJSON env ?t = Some g" by auto
  have s1: "q_select_envelope env ?t w = (Inr (ST_Envelope env g), w\<lparr>issued := Suc (issued w)\<rparr>)"
    using Cons.prems(1,2) g by (simp add: q_select_envelope_def statement_def Let_def)
  let ?w1 = "w\<lparr>issued := Suc (issued w)\<rparr>"
  obtain w2 where s2: "q_insert env nm ?t ?md (Some (ST_Envelope env g)) ?w1 = (Inr (), w2)"
    and o2: "\<exists>rs'. txn w2 = Open rs'"
    using Cons.prems(1,2) g
    by (simp add: q_insert_def statement_def visible_def write_rows_def Let_def)
  from o2 obtain rs' where "txn w2 = Open rs'" by blast
  from Cons.IH [OF this Cons.prems(2)] Cons.prems(3)
  obtain w' where "insert_features env nm fs w2 = (Inr (), w')" by auto
  with s1 s2 show ?case by (simp add: Let_def)
qed

lemma upload_succeeds:
  assumes "txn w = Idle" and "3 \<le> length fs"
    and "find (\<lambda>f. endsWith (toLowerCase (originalname f)) ''.shp'') fs = Some shp"
    and "shapefile_open env (path shp) = Inr (map Record recs)"
    and "filter (\<lambda>f. truthy (geometry f)) recs \<noteq> []"
    and "connect_fault env = None" and "\<forall>k. db_fault env k = None"
    and "\<forall>f\<in>set recs. truthy (geometry f) \<longrightarrow>
           ST_GeomFromGeoJSON env (JSON_stringify env (geometry f)) \<noteq> None"
  shows "status (fst (upload env tid (Some fs) w)) = 201"
proof -
  let ?feats = "filter (\<lambda>f. truthy (geometry f)) recs"
  let ?w2 = "logger LInfo (tagged tid (''Read '' @ show_nat (length ?feats) @ '' features'')) []
               (logger LDebug (tagged tid (''Processing shapefile: '' @ path shp)) []
                  (logger LInfo (tagged tid ''Starting shapefile upload'') [] w))"
  let ?w3 = "?w2\<lparr>borrowed := Suc (borrowed ?w2)\<rparr>"
  have b: "q_begin env ?w3 = (Inr (), ?w3\<lparr>issued := Suc (issued ?w3), txn := Open (committed ?w3)\<rparr>)"
    using assms(1,7) by (simp add: q_begin_def Let_def)
  let ?w4 = "?w3\<lparr>issued := Suc (issued ?w3), txn := Open (committed ?w3)\<rparr>"
  obtain n w5 where d: "q_delete_by_name env (originalname shp) ?w4 = (Inr n, w5)"
    and o5: "\<exists>rs. txn w5 = Open rs"
    using assms(7)
    by (simp add: q_delete_by_name_def statement_def visible_def write_rows_def Let_def)
  from o5 obtain rs where "txn w5 = Open rs" by blast
  from insert_features_succeeds [OF this assms(7), of ?feats "originalname shp"] assms(8)
  obtain w6 where i: "insert_features env (originalname shp) ?feats w5 = (Inr (), w6)" by auto
  obtain w7 where c: "q_commit env w6 = (Inr (), w7)"
    using assms(7) by (simp add: q_commit_def Let_def)
  have "\<exists>w8. upload_txn env tid shp ?feats ?w3 =
          (Inr (json 201 [(''success'', JBool True), (''count'', JNum (of_nat (length ?feats))),
                          (''name'', JStr (originalname shp))]), w8)"
    using b d i c by (simp add: upload_txn_def)
  then obtain w8 where t: "upload_txn env tid shp ?feats ?w3 =
          (Inr (json 201 [(''success'', JBool True), (''count'', JNum (of_nat (length ?feats))),
                          (''name'', JStr (originalname shp))]), w8)" by blast
  have "fst (upload env tid (Some fs) w) =
          json 201 [(''success'', JBool True), (''count'', JNum (of_nat (length ?feats))),
                    (''name'', JStr (originalname shp))]"
    using assms(2-6) t
    by (simp add: upload_def upload_try_def read_features_records pool_connect_def Let_def)
  then show ?thesis by (simp add: json_def)
qed

text \<open>
  C1. Every upload ends in one of two ways. Either it answers 201, no statement it sent
  had failed, and the table is the old one without the rows of the dataset name followed
  by one row for each feature retained from the parse; or it answers something else and
  the table is exactly what it was. When a statement of the request fails, the answer is
  500 and the table is what it was. No transaction is left open.
\<close>

theorem upload_all_or_nothing:
  assumes "txn w = Idle" and "upload env tid files w = (resp, w')"
  shows "txn w' = Idle \<and>
    ((status resp = 201 \<and> fault_free env (issued w) (issued w') \<and>
      (\<exists>fs shp recs new.
         files = Some fs \<and>
         find (\<lambda>f. endsWith (toLowerCase (originalname f)) ''.shp'') fs = Some shp \<and>
         shapefile_open env (path shp) = Inr (map Record recs) \<and>
         committed w' = filter (\<lambda>r. name_col r \<noteq> originalname shp) (committed w) @ new \<and>
         list_all2 (persisted env (originalname shp) (now w))
                   (filter (\<lambda>f. truthy (geometry f)) recs) new)) \<or>
     (status resp \<noteq> 201 \<and> committed w' = committed w)) \<and>
    (\<not> fault_free env (issued w) (issued w') \<longrightarrow>
       status resp = 500 \<and> committed w' = committed w)"
proof -
  note o = upload_outcome [OF assms]
  then consider
      (failed) "status resp = 500" "committed w' = committed w"
    | (refused) "status resp = 400" "committed w' = committed w" "issued w' = issued w"
    | (stored) fs shp recs new where
        "files = Some fs"
        "find (\<lambda>f. endsWith (toLowerCase (originalname f)) ''.shp'') fs = Some shp"
        "shapefile_open env (path shp) = Inr (map Record recs)"
        "resp = json 201 [(''success'', JBool True),
                          (''count'', JNum (of_nat (length (filter (\<lambda>f. truthy (geometry f)) recs)))),
                          (''name'', JStr (originalname shp))]"
        "fault_free env (issued w) (issued w')"
        "committed w' = filter (\<lambda>r. name_col r \<noteq> originalname shp) (committed w) @ new"
        "list_all2 (persisted env (originalname shp) (now w))
                   (filter (\<lambda>f. truthy (geometry f)) recs) new"
    by blast
  then show ?thesis
  proof cases
    case failed
    with o show ?thesis by simp
  next
    case refused
    with o show ?thesis by simp
  next
    case stored
    have "status resp = 201" using stored(4) by (simp add: json_def)
    with o stored show ?thesis by blast
  qed
qed

lemmas upload_unfold =
  upload_def upload_try_def logger_def tagged_def endsWith_def toLowerCase_def
  pool_connect_def upload_txn_def upload_catch_def q_begin_def q_delete_by_name_def
  q_select_envelope_def q_insert_def statement_def q_commit_def q_rollback_def fail_txn_def
  visible_def write_rows_def json_def upload_finally_def release_def unlinkSync_def Let_def
  example_env_def example_world_def example_files_def example_records_def example_row_def
  example_stringify_def

lemma example_hyps:
  "txn example_world = Idle"
  "3 \<le> length example_files"
  "find (\<lambda>f. endsWith (toLowerCase (originalname f)) ''.shp'') example_files = Some (example_files ! 0)"
  "shapefile_open example_env (path (example_files ! 0)) = Inr (map Record example_records)"
  "\<forall>f\<in>set example_records. geometry_field (geometry f)"
  by (simp_all add: example_world_def example_files_def example_env_def example_records_def
        endsWith_def toLowerCase_def geometry_field_def)

lemma failing_upload:
  "\<exists>l d. upload failing_env ''t1'' (Some example_files) example_world =
     (json 500 [(''error'', JStr ''Failed to process shapefile'')],
      \<lparr>committed = [example_row], txn = Idle, next_id = 3, now = 5, issued = 6, borrowed = 0,
       disk = d, log_lines = l\<rparr>)"
  by (simp add: upload_unfold failing_env_def)

theorem upload_all_or_nothing_witness:
  "txn example_world = Idle \<and>
   db_fault failing_env 4 = Some ''connection lost'' \<and>
   issued example_world \<le> 4 \<and>
   4 < issued (snd (upload failing_env ''t1'' (Some example_files) example_world)) \<and>
   status (fst (upload failing_env ''t1'' (Some example_files) example_world)) = 500 \<and>
   committed (snd (upload failing_env ''t1'' (Some example_files) example_world)) =
     committed example_world \<and>
   txn (snd (upload failing_env ''t1'' (Some example_files) example_world)) = Idle"
proof -
  obtain l d where run: "upload failing_env ''t1'' (Some example_files) example_world =
     (json 500 [(''error'', JStr ''Failed to process shapefile'')],
      \<lparr>committed = [example_row], txn = Idle, next_id = 3, now = 5, issued = 6, borrowed = 0,
       disk = d, log_lines = l\<rparr>)"
    using failing_upload by blast
  note t = upload_all_or_nothing [OF example_hyps(1) run]
  have "db_fault failing_env 4 = Some ''connection lost''"
    by (simp add: failing_env_def)
  with t example_hyps(1) run show ?thesis
    by (simp add: json_def example_world_def)
qed

text \<open>
  C2. When the parse of the uploaded dataset yields the records \<open>recs\<close> and the upload
  answers 201, the rows under the dataset name are exactly one for each record with a
  geometry, in the order of the parse (also by their identifiers, drawn in sequence),
  and the bounding box of each row is the store's envelope of its geometry.
\<close>

theorem upload_persists_features:
  assumes "txn w = Idle"
    and "find (\<lambda>f. endsWith (toLowerCase (originalname f)) ''.shp'') fs = Some shp"
    and "shapefile_open env (path shp) = Inr (map Record recs)"
    and "\<forall>f\<in>set recs. geometry_field (geometry f)"
    and "upload env tid (Some fs) w = (resp, w')"
    and "status resp = 201"
  shows "(let rows = filter (\<lambda>r. name_col r = originalname shp) (committed w');
              feats = filter (\<lambda>f. present (geometry f)) recs
          in length rows = length feats \<and>
             list_all2 (persisted env (originalname shp) (now w)) feats rows \<and>
             (\<forall>r\<in>set rows. bbox_col r = Some (ST_Envelope env (geom_col r))) \<and>
             map id_col rows = map (\<lambda>i. next_id w + int i) [0..<length feats])"
proof -
  let ?nm = "originalname shp"
  from upload_outcome [OF assms(1,5)] assms(6)
  obtain fs' shp' recs' new where st:
    "Some fs = Some fs'"
    "find (\<lambda>f. endsWith (toLowerCase (originalname f)) ''.shp'') fs' = Some shp'"
    "shapefile_open env (path shp') = Inr (map Record recs')"
    "committed w' = filter (\<lambda>r. name_col r \<noteq> originalname shp') (committed w) @ new"
    "list_all2 (persisted env (originalname shp') (now w))
               (filter (\<lambda>f. truthy (geometry f)) recs') new"
    "map id_col new =
       map (\<lambda>i. next_id w + int i) [0..<length (filter (\<lambda>f. truthy (geometry f)) recs')]"
    by auto
  from st(1,2) assms(2) have shp: "shp' = shp" by simp
  with st(3) assms(3) have "map Record recs' = map Record recs" by simp
  then have recs: "recs' = recs" by (simp add: inj_map_eq_map inj_on_def)
  let ?feats = "filter (\<lambda>f. present (geometry f)) recs"
  have feats: "filter (\<lambda>f. truthy (geometry f)) recs = ?feats"
    by (rule filter_truthy_present [OF assms(4)])
  from st(5) shp recs feats have all: "list_all2 (persisted env ?nm (now w)) ?feats new" by simp
  have named: "\<forall>r\<in>set new. name_col r = ?nm \<and> bbox_col r = Some (ST_Envelope env (geom_col r))"
  proof
    fix r assume "r \<in> set new"
    then obtain i where "i < length new" "r = new ! i" by (auto simp: in_set_conv_nth)
    with all have "persisted env ?nm (now w) (?feats ! i) r" by (simp add: list_all2_conv_all_nth)
    then show "name_col r = ?nm \<and> bbox_col r = Some (ST_Envelope env (geom_col r))"
      by (simp add: persisted_def)
  qed
  then have "filter (\<lambda>r. name_col r = ?nm) new = new" by (simp add: filter_id_conv)
  with st(4) shp have rows: "filter (\<lambda>r. name_col r = ?nm) (committed w') = new" by simp
  have "length new = length ?feats" using all by (simp add: list_all2_lengthD)
  with rows all named st(6) recs feats show ?thesis by (simp add: Let_def)
qed



lemma example_upload:
  "\<exists>l. upload example_env ''t1'' (Some example_files) example_world =
     (json 201 [(''success'', JBool True), (''count'', JNum 2), (''name'', JStr ''wells.SHP'')],
      \<lparr>committed =
         [example_row,
          \<lparr>id_col = 2, name_col = ''wells.SHP'', geom_col = ''{Point}'',
            bbox_col = Some ''box{Point}'', metadata_col = Some ''{kind}'',
            created_at = 5, updated_at = 5\<rparr>,
          \<lparr>id_col = 3, name_col = ''wells.SHP'', geom_col = ''{Polygon}'',
            bbox_col = Some ''box{Polygon}'', metadata_col = None,
            created_at = 5, updated_at = 5\<rparr>],
       txn = Idle, next_id = 4, now = 5, issued = 7, borrowed = 0, disk = [], log_lines = l\<rparr>)"
  by (simp add: upload_unfold)

theorem upload_persists_features_witness:
  "txn example_world = Idle \<and>
   find (\<lambda>f. endsWith (toLowerCase (originalname f)) ''.shp'') example_files = Some (example_files ! 0) \<and>
   shapefile_open example_env (path (example_files ! 0)) = Inr (map Record example_records) \<and>
   list_all (\<lambda>f. geometry_field (geometry f)) example_records \<and>
   status (fst (upload example_env ''t1'' (Some example_files) example_world)) = 201 \<and>
   filter (\<lambda>r. name_col r = originalname (example_files ! 0))
          (committed (snd (upload example_env ''t1'' (Some example_files) example_world))) =
     [\<lparr>id_col = 2, name_col = ''wells.SHP'', geom_col = ''{Point}'', bbox_col = Some ''box{Point}'',
       metadata_col = Some ''{kind}'', created_at = 5, updated_at = 5\<rparr>,
      \<lparr>id_col = 3, name_col = ''wells.SHP'', geom_col = ''{Polygon}'', bbox_col = Some ''box{Polygon}'',
       metadata_col = None, created_at = 5, updated_at = 5\<rparr>] \<and>
   (let rows = filter (\<lambda>r. name_col r = originalname (example_files ! 0))
                 (committed (snd (upload example_env ''t1'' (Some example_files) example_world)));
        feats = filter (\<lambda>f. present (geometry f)) example_records
    in length rows = length feats \<and>
       list_all2 (persisted example_env (originalname (example_files ! 0)) (now example_world)) feats rows \<and>
       (\<forall>r\<in>set rows. bbox_col r = Some (ST_Envelope example_env (geom_col r))) \<and>
       map id_col rows = map (\<lambda>i. next_id example_world + int i) [0..<length feats])"
proof -
  obtain l where run: "upload example_env ''t1'' (Some example_files) example_world =
     (json 201 [(''success'', JBool True), (''count'', JNum 2), (''name'', JStr ''wells.SHP'')],
      \<lparr>committed =
         [example_row,
          \<lparr>id_col = 2, name_col = ''wells.SHP'', geom_col = ''{Point}'',
            bbox_col = Some ''box{Point}'', metadata_col = Some ''{kind}'',
            created_at = 5, updated_at = 5\<rparr>,
          \<lparr>id_col = 3, name_col = ''wells.SHP'', geom_col = ''{Polygon}'',
            bbox_col = Some ''box{Polygon}'', metadata_col = None,
            created_at = 5, updated_at = 5\<rparr>],
       txn = Idle, next_id = 4, now = 5, issued = 7, borrowed = 0, disk = [], log_lines = l\<rparr>)"
    using example_upload by blast
  have ok: "status (json 201 [(''success'', JBool True), (''count'', JNum 2), (''name'', JStr ''wells.SHP'')]) = 201"
    by (simp add: json_def)
  note t = upload_persists_features [OF example_hyps(1) example_hyps(3) example_hyps(4)
      example_hyps(5) run ok]
  have rows: "filter (\<lambda>r. name_col r = originalname (example_files ! 0))
          (committed (snd (upload example_env ''t1'' (Some example_files) example_world))) =
     [\<lparr>id_col = 2, name_col = ''wells.SHP'', geom_col = ''{Point}'', bbox_col = Some ''box{Point}'',
       metadata_col = Some ''{kind}'', created_at = 5, updated_at = 5\<rparr>,
      \<lparr>id_col = 3, name_col = ''wells.SHP'', geom_col = ''{Polygon}'', bbox_col = Some ''box{Polygon}'',
       metadata_col = None, created_at = 5, updated_at = 5\<rparr>]"
  proof -
    have nm: "originalname (example_files ! 0) = ''wells.SHP''" by (simp add: example_files_def)
    show ?thesis by (simp add: run nm example_row_def)
  qed
  from t example_hyps run ok rows show ?thesis by (simp add: list_all_iff)
qed

text \<open>
  C4. The records whose geometry is null or absent are dropped and the others keep the
  order of the parse; when none is left, the upload answers 400 with the message for
  no valid features, sends nothing to the store and leaves the table as it was.
\<close>

theorem upload_drops_null_geometry:
  assumes "txn w = Idle" and "3 \<le> length fs"
    and "find (\<lambda>f. endsWith (toLowerCase (originalname f)) ''.shp'') fs = Some shp"
    and "shapefile_open env (path shp) = Inr (map Record recs)"
    and "\<forall>f\<in>set recs. geometry_field (geometry f)"
  shows "read_features (map Record recs) [] = Inr (filter (\<lambda>f. present (geometry f)) recs) \<and>
         (filter (\<lambda>f. present (geometry f)) recs = [] \<longrightarrow>
            fst (upload env tid (Some fs) w) =
              json 400 [(''error'', JStr ''No valid features found in shapefile'')] \<and>
            committed (snd (upload env tid (Some fs) w)) = committed w \<and>
            txn (snd (upload env tid (Some fs) w)) = Idle \<and>
            issued (snd (upload env tid (Some fs) w)) = issued w)"
proof -
  have feats: "read_features (map Record recs) [] = Inr (filter (\<lambda>f. present (geometry f)) recs)"
    using filter_truthy_present [OF assms(5)] by (simp add: read_features_records)
  moreover have "upload env tid (Some fs) w =
      (json 400 [(''error'', JStr ''No valid features found in shapefile'')],
       logger LWarn (tagged tid ''No valid features found'') []
         (logger LDebug (tagged tid (''Processing shapefile: '' @ path shp)) []
            (logger LInfo (tagged tid ''Starting shapefile upload'') [] w)))"
    if "filter (\<lambda>f. present (geometry f)) recs = []"
    using that assms(2-4) feats by (simp add: upload_def upload_try_def Let_def)
  ultimately show ?thesis using assms(1) by simp
qed


theorem upload_drops_null_geometry_witness:
  "txn example_world = Idle \<and> 3 \<le> length example_files \<and>
   find (\<lambda>f. endsWith (toLowerCase (originalname f)) ''.shp'') example_files = Some (example_files ! 0) \<and>
   shapefile_open empty_env (path (example_files ! 0)) = Inr (map Record empty_records) \<and>
   list_all (\<lambda>f. geometry_field (geometry f)) empty_records \<and>
   filter (\<lambda>f. present (geometry f)) empty_records = [] \<and>
   read_features (map Record empty_records) [] = Inr [] \<and>
   fst (upload empty_env ''t1'' (Some example_files) example_world) =
     json 400 [(''error'', JStr ''No valid features found in shapefile'')] \<and>
   committed (snd (upload empty_env ''t1'' (Some example_files) example_world)) = committed example_world \<and>
   issued (snd (upload empty_env ''t1'' (Some example_files) example_world)) = issued example_world"
proof -
  have h4: "shapefile_open empty_env (path (example_files ! 0)) = Inr (map Record empty_records)"
    by (simp add: empty_env_def)
  have h5: "\<forall>f\<in>set empty_records. geometry_field (geometry f)"
    by (simp add: empty_records_def geometry_field_def)
  have none: "filter (\<lambda>f. present (geometry f)) empty_records = []"
    by (simp add: empty_records_def present_def)
  note t = upload_drops_null_geometry [OF example_hyps(1) example_hyps(2) example_hyps(3) h4 h5,
      of "''t1''"]
  from t none h4 h5 example_hyps show ?thesis by (simp add: list_all_iff)
qed


text \<open>
  C3. An upload of two files is answered 400 and the two files stay in the upload
  directory: the handler returns before the block that unlinks them, which only the
  paths through the transaction reach. There, as in the upload of the three files of
  the setting, the directory is emptied. The two files pass the filter of the
  middleware, so the request reaches the handler.
\<close>

theorem upload_two_files_stay_on_disk:
  "fst (upload example_env ''t1'' (Some two_files) example_world) =
     json 400 [(''error'', JStr ''Please upload .shp, .shx, and .dbf files'')] \<and>
   disk (snd (upload example_env ''t1'' (Some two_files) example_world)) =
     [''uploads/1.shp'', ''uploads/2.shx'', ''uploads/3.dbf''] \<and>
   set (map path two_files) \<subseteq> set (disk (snd (upload example_env ''t1'' (Some two_files) example_world))) \<and>
   disk (snd (upload example_env ''t1'' (Some example_files) example_world)) = [] \<and>
   list_all fileFilter two_files \<and> length two_files \<le> files_limit"
proof -
  obtain l where run: "upload example_env ''t1'' (Some example_files) example_world =
     (json 201 [(''success'', JBool True), (''count'', JNum 2), (''name'', JStr ''wells.SHP'')],
      \<lparr>committed =
         [example_row,
          \<lparr>id_col = 2, name_col = ''wells.SHP'', geom_col = ''{Point}'',
            bbox_col = Some ''box{Point}'', metadata_col = Some ''{kind}'',
            created_at = 5, updated_at = 5\<rparr>,
          \<lparr>id_col = 3, name_col = ''wells.SHP'', geom_col = ''{Polygon}'',
            bbox_col = Some ''box{Polygon}'', metadata_col = None,
            created_at = 5, updated_at = 5\<rparr>],
       txn = Idle, next_id = 4, now = 5, issued = 7, borrowed = 0, disk = [], log_lines = l\<rparr>)"
    using example_upload by blast
  have "upload example_env ''t1'' (Some two_files) example_world =
     (json 400 [(''error'', JStr ''Please upload .shp, .shx, and .dbf files'')],
      logger LWarn (tagged ''t1'' ''Missing required files'') []
        (logger LInfo (tagged ''t1'' ''Starting shapefile upload'') [] example_world))"
    by (simp add: upload_def upload_try_def two_files_def)
  then have "fst (upload example_env ''t1'' (Some two_files) example_world) =
       json 400 [(''error'', JStr ''Please upload .shp, .shx, and .dbf files'')]"
    and "disk (snd (upload example_env ''t1'' (Some two_files) example_world)) =
       [''uploads/1.shp'', ''uploads/2.shx'', ''uploads/3.dbf'']"
    by (simp_all add: example_world_def)
  moreover have "disk (snd (upload example_env ''t1'' (Some example_files) example_world)) = []"
    by (simp add: run)
  moreover have "list_all fileFilter two_files \<and> length two_files \<le> files_limit"
    by (simp add: two_files_def fileFilter_def extname_def toLowerCase_def files_limit_def)
  ultimately show ?thesis by (simp add: two_files_def)
qed

text \<open>
  C6. An upload of three files with no attribute table among them (a geometry file, a
  shape index and a projection file) passes the filter of the middleware and both checks
  of the handler, and is stored with status 201.
\<close>

theorem upload_without_dbf_accepted:
  "list_all (\<lambda>f. \<not> endsWith (toLowerCase (originalname f)) ''.dbf'') files_without_dbf \<and>
   list_all fileFilter files_without_dbf \<and> length files_without_dbf \<le> files_limit \<and>
   fst (upload example_env ''t1'' (Some files_without_dbf) example_world) =
     json 201 [(''success'', JBool True), (''count'', JNum 2), (''name'', JStr ''wells.shp'')]"
proof -
  have "list_all fileFilter files_without_dbf \<and> length files_without_dbf \<le> files_limit"
    by (simp add: files_without_dbf_def fileFilter_def extname_def toLowerCase_def files_limit_def)
  moreover have "list_all (\<lambda>f. \<not> endsWith (toLowerCase (originalname f)) ''.dbf'') files_without_dbf \<and>
    fst (upload example_env ''t1'' (Some files_without_dbf) example_world) =
      json 201 [(''success'', JBool True), (''count'', JNum 2), (''name'', JStr ''wells.shp'')]"
    by (simp add: upload_unfold files_without_dbf_def)
  ultimately show ?thesis by simp
qed

subsection \<open>\<^verbatim>\<open>PUT /:id\<close>\<close>

lemma put_assignments_resolve:
  assumes "put_assignments env name metadata ident = (updates, values, counter)"
  shows "resolve env values updates =
           Some ((if truthy name then [(NameColumn, param_text env name)] else []) @
                 (if truthy metadata then [(MetadataColumn, JSON_stringify env metadata)] else [])) \<and>
         placeholder values counter = Some (JStr ident) \<and>
         (updates = [] \<longleftrightarrow> \<not> truthy name \<and> \<not> truthy metadata)"
  using assms
  by (cases "truthy name"; cases "truthy metadata")
     (auto simp: put_assignments_def placeholder_def param_text_def)

lemma fold_set_column:
  assumes "sets = (if truthy name then [(NameColumn, param_text env name)] else []) @
                  (if truthy metadata then [(MetadataColumn, JSON_stringify env metadata)] else [])"
  shows "(fold set_column sets r)\<lparr>updated_at := t\<rparr> = updated_row env name metadata t r"
  by (simp add: assms updated_row_def)

lemma q_update_Idle:
  assumes "txn w = Idle" and "q_update env updates k values w = (res, w')"
  shows "txn w' = Idle \<and> issued w' = Suc (issued w) \<and> now w' = now w \<and>
         (case res of
            Inl e \<Rightarrow> committed w' = committed w
          | Inr rows \<Rightarrow>
              (\<exists>sets idv i. updates \<noteq> [] \<and> db_fault env (issued w) = None \<and>
                 resolve env values updates = Some sets \<and> placeholder values k = Some idv \<and>
                 int4in env (param_text env idv) = Some i \<and>
                 committed w' = map (\<lambda>r. if id_col r = i
                                          then (fold set_column sets r)\<lparr>updated_at := now w\<rparr>
                                          else r) (committed w) \<and>
                 rows = filter (\<lambda>r. id_col r = i) (committed w')))"
  using assms
  by (auto simp: q_update_def statement_def fail_txn_def visible_def write_rows_def Let_def
           split: option.splits if_splits)

lemma filter_map_hits:
  assumes "\<And>r. id_col (f r) = id_col r"
  shows "filter (\<lambda>r. id_col r = i) (map (\<lambda>r. if id_col r = i then f r else r) rs) =
         map f (filter (\<lambda>r. id_col r = i) rs)"
  by (induction rs) (auto simp: assms)

lemma put_shapefile_rejected:
  assumes "\<not> truthy (get_prop req_body ''name'')" and "\<not> truthy (get_prop req_body ''metadata'')"
  shows "put_shapefile env ident req_body w =
           (Responded (json 400 [(''error'', JStr ''No fields to update'')]), w)"
  using assms by (simp add: put_shapefile_def)

lemma put_shapefile_sent:
  assumes "truthy (get_prop req_body ''name'') \<or> truthy (get_prop req_body ''metadata'')"
    and "put_assignments env (get_prop req_body ''name'') (get_prop req_body ''metadata'') ident =
           (updates, values, counter)"
    and "q_update env updates counter values w = (res, w1)"
  shows "put_shapefile env ident req_body w =
     (case res of
        Inr rows \<Rightarrow>
          (case rows of
             [] \<Rightarrow> (Responded (json 404 [(''error'', JStr ''Shapefile not found'')]),
                    logger LWarn (''Shapefile not found: '' @ ident) [] w1)
           | r # rest \<Rightarrow> (Responded (json 200 (returned env r)), w1))
      | Inl error \<Rightarrow>
          (Responded (json 500 [(''error'', JStr ''Failed to update shapefile'')]),
           logger LError ''Failed to update shapefile''
             [(''id'', JStr ident), (''error'', JStr error)] w1))"
  using assms by (auto simp: put_shapefile_def split: sum.splits)

text \<open>
  C5, as the code has it. A field counts as supplied when its value is truthy. With
  neither field truthy the call is rejected with status 400 and nothing changes. With
  one of them truthy, when the statement goes through and the identifier reads as the
  integer \<open>i\<close>: in every row with that identifier exactly the truthy fields are
  assigned (a name that is a string is stored as it is), \<open>updated_at\<close> becomes the
  current time, all other rows stay as they are; the answer is the updated row, or 404
  when no row has the identifier.
\<close>

theorem put_assigns_truthy_fields:
  assumes "txn w = Idle" and "db_fault env (issued w) = None" and "int4in env ident = Some i"
  shows "(\<not> truthy (get_prop req_body ''name'') \<and> \<not> truthy (get_prop req_body ''metadata'') \<longrightarrow>
            put_shapefile env ident req_body w =
              (Responded (json 400 [(''error'', JStr ''No fields to update'')]), w)) \<and>
         (truthy (get_prop req_body ''name'') \<or> truthy (get_prop req_body ''metadata'') \<longrightarrow>
            committed (snd (put_shapefile env ident req_body w)) =
              map (\<lambda>r. if id_col r = i
                        then updated_row env (get_prop req_body ''name'')
                               (get_prop req_body ''metadata'') (now w) r
                        else r) (committed w) \<and>
            fst (put_shapefile env ident req_body w) =
              (case filter (\<lambda>r. id_col r = i) (committed w) of
                 [] \<Rightarrow> Responded (json 404 [(''error'', JStr ''Shapefile not found'')])
               | r # rest \<Rightarrow>
                   Responded (json 200 (returned env
                     (updated_row env (get_prop req_body ''name'')
                        (get_prop req_body ''metadata'') (now w) r)))))"
proof (intro conjI impI)
  assume "\<not> truthy (get_prop req_body ''name'') \<and> \<not> truthy (get_prop req_body ''metadata'')"
  then show "put_shapefile env ident req_body w =
      (Responded (json 400 [(''error'', JStr ''No fields to update'')]), w)"
    by (simp add: put_shapefile_rejected)
next
  let ?name = "get_prop req_body ''name''" and ?metadata = "get_prop req_body ''metadata''"
  let ?new = "map (\<lambda>r. if id_col r = i then updated_row env ?name ?metadata (now w) r else r)
                  (committed w)"
  assume some: "truthy ?name \<or> truthy ?metadata"
  obtain updates vals counter where
    pa: "put_assignments env ?name ?metadata ident = (updates, vals, counter)"
    by (cases "put_assignments env ?name ?metadata ident") auto
  note ra = put_assignments_resolve [OF pa]
  define sets where "sets = (if truthy ?name then [(NameColumn, param_text env ?name)] else []) @
                  (if truthy ?metadata then [(MetadataColumn, JSON_stringify env ?metadata)] else [])"
  have rs: "resolve env vals updates = Some sets" "placeholder vals counter = Some (JStr ident)"
    "updates \<noteq> []"
    using ra some by (auto simp: sets_def)
  let ?raw = "map (\<lambda>r. if id_col r = i then (fold set_column sets r)\<lparr>updated_at := now w\<rparr> else r)
                  (committed w)"
  have "q_update env updates counter vals w =
               (Inr (filter (\<lambda>r. id_col r = i) ?raw), w\<lparr>issued := Suc (issued w), committed := ?raw\<rparr>)"
    using assms rs
    by (simp add: q_update_def statement_def visible_def write_rows_def param_text_def Let_def
          cong: if_cong)
  moreover have "?raw = ?new"
    by (simp add: fold_set_column [OF sets_def])
  ultimately have upd: "q_update env updates counter vals w =
               (Inr (filter (\<lambda>r. id_col r = i) ?new), w\<lparr>issued := Suc (issued w), committed := ?new\<rparr>)"
    by simp
  note sent = put_shapefile_sent [OF some pa upd]
  have hits: "filter (\<lambda>r. id_col r = i) ?new =
              map (updated_row env ?name ?metadata (now w)) (filter (\<lambda>r. id_col r = i) (committed w))"
    by (rule filter_map_hits) (simp add: updated_row_def)
  show "committed (snd (put_shapefile env ident req_body w)) = ?new"
    using sent by (simp split: list.splits)
  show "fst (put_shapefile env ident req_body w) =
          (case filter (\<lambda>r. id_col r = i) (committed w) of
             [] \<Rightarrow> Responded (json 404 [(''error'', JStr ''Shapefile not found'')])
           | r # rest \<Rightarrow> Responded (json 200 (returned env (updated_row env ?name ?metadata (now w) r))))"
    using sent hits by (simp split: list.splits)
qed

theorem put_assigns_truthy_fields_witness:
  "txn example_world = Idle \<and> db_fault example_env (issued example_world) = None \<and>
   int4in example_env ''1'' = Some 1 \<and>
   truthy (get_prop metadata_only ''metadata'') \<and> \<not> truthy (get_prop metadata_only ''name'') \<and>
   committed (snd (put_shapefile example_env ''1'' metadata_only example_world)) =
     [example_row\<lparr>metadata_col := Some ''{surveyed}'', updated_at := 5\<rparr>] \<and>
   fst (put_shapefile example_env ''1'' metadata_only example_world) =
     Responded (json 200 (returned example_env
        (example_row\<lparr>metadata_col := Some ''{surveyed}'', updated_at := 5\<rparr>)))"
proof -
  have h: "txn example_world = Idle" "db_fault example_env (issued example_world) = None"
    "int4in example_env ''1'' = Some 1"
    by (simp_all add: example_world_def example_env_def)
  have b: "truthy (get_prop metadata_only ''metadata'')" "\<not> truthy (get_prop metadata_only ''name'')"
    "get_prop metadata_only ''name'' = JUndefined"
    "get_prop metadata_only ''metadata'' = JObj [(''surveyed'', JBool True)]"
    by (simp_all add: metadata_only_def get_prop_def)
  note t = put_assigns_truthy_fields [OF h, of metadata_only]
  have row: "updated_row example_env JUndefined (JObj [(''surveyed'', JBool True)]) 5 example_row =
               example_row\<lparr>metadata_col := Some ''{surveyed}'', updated_at := 5\<rparr>"
    by (simp add: updated_row_def example_env_def example_stringify_def example_row_def)
  have w: "committed example_world = [example_row]" "now example_world = 5" "id_col example_row = 1"
    by (simp_all add: example_world_def example_row_def)
  from t h b show ?thesis by (simp add: w row)
qed

text \<open>
  C5, as the spec states it, fails on a name that is supplied as the empty string: the
  request names a field, a row with the identifier exists, yet the call is rejected as
  having no fields and the row's \<open>updated_at\<close> stays behind the clock.
\<close>

theorem put_supplied_empty_name_counterexample:
  "map_of empty_name_only ''name'' = Some (JStr '''') \<and>
   int4in example_env ''1'' = Some 1 \<and>
   map id_col (committed example_world) = [1] \<and>
   put_shapefile example_env ''1'' empty_name_only example_world =
     (Responded (json 400 [(''error'', JStr ''No fields to update'')]), example_world) \<and>
   map updated_at (committed example_world) = [3] \<and> now example_world = 5"
  by (simp add: empty_name_only_def put_shapefile_def get_prop_def example_env_def
        example_world_def example_row_def)

lemma put_shapefile_names:
  assumes "txn w = Idle"
  shows "list_all2 (\<lambda>r r'. name_col r' = name_col r \<or>
                            (truthy (get_prop req_body ''name'') \<and>
                             name_col r' = param_text env (get_prop req_body ''name'')))
           (committed w) (committed (snd (put_shapefile env ident req_body w)))"
proof (cases "truthy (get_prop req_body ''name'') \<or> truthy (get_prop req_body ''metadata'')")
  case False
  then show ?thesis by (simp add: put_shapefile_rejected list_all2_same)
next
  case True
  let ?name = "get_prop req_body ''name''" and ?metadata = "get_prop req_body ''metadata''"
  obtain updates vals counter where
    pa: "put_assignments env ?name ?metadata ident = (updates, vals, counter)"
    by (cases "put_assignments env ?name ?metadata ident") auto
  note ra = put_assignments_resolve [OF pa]
  obtain res w1 where upd: "q_update env updates counter vals w = (res, w1)" by force
  note sent = put_shapefile_sent [OF True pa upd]
  note eu = q_update_Idle [OF assms upd]
  show ?thesis
  proof (cases res)
    case (Inl e)
    with sent eu show ?thesis by (simp add: list_all2_same)
  next
    case (Inr rows)
    with eu obtain sets i where
      e: "resolve env vals updates = Some sets"
         "committed w1 = map (\<lambda>r. if id_col r = i
                   then (fold set_column sets r)\<lparr>updated_at := now w\<rparr> else r) (committed w)"
      by auto
    from ra e(1) have sets:
      "sets = (if truthy ?name then [(NameColumn, param_text env ?name)] else []) @
              (if truthy ?metadata then [(MetadataColumn, JSON_stringify env ?metadata)] else [])"
      by simp
    have c: "committed w1 = map (\<lambda>r. if id_col r = i
                   then updated_row env ?name ?metadata (now w) r else r) (committed w)"
      by (simp add: e(2) fold_set_column [OF sets])
    have "committed (snd (put_shapefile env ident req_body w)) = committed w1"
      using sent Inr by (simp split: list.splits)
    with c show ?thesis
      by (simp add: list_all2_map2 list_all2_same updated_row_def)
  qed
qed

lemma put_assignments_falsy:
  "\<not> truthy v \<Longrightarrow> put_assignments env v metadata ident = put_assignments env JUndefined metadata ident"
  "\<not> truthy v \<Longrightarrow> put_assignments env name v ident = put_assignments env name JUndefined ident"
  by (simp_all add: put_assignments_def)

lemma list_all2_names:
  "list_all2 (\<lambda>r r'. name_col r' = name_col r) xs ys \<Longrightarrow> map name_col ys = map name_col xs"
  by (induction xs ys rule: list_all2_induct) simp_all

text \<open>
  C10. The update tests its two fields by truthiness. A request in which neither value
  is truthy (an empty-string name alone, a falsy metadata alone) is rejected with
  \<open>No fields to update\<close> and changes nothing; a falsy value in front of a body that
  lacks the field is handled exactly as that body; with a name that is not truthy no
  name in the table changes; and with a name that is a string, a name in the table is
  afterwards either what it was or that string, which then is not empty.
\<close>

theorem put_tests_truthiness:
  assumes "txn w = Idle"
  shows "(\<not> truthy (get_prop req_body ''name'') \<and> \<not> truthy (get_prop req_body ''metadata'') \<longrightarrow>
            put_shapefile env ident req_body w =
              (Responded (json 400 [(''error'', JStr ''No fields to update'')]), w)) \<and>
         (\<forall>v. \<not> truthy v \<and> map_of req_body ''name'' = None \<longrightarrow>
            put_shapefile env ident ((''name'', v) # req_body) w = put_shapefile env ident req_body w) \<and>
         (\<forall>v. \<not> truthy v \<and> map_of req_body ''metadata'' = None \<longrightarrow>
            put_shapefile env ident ((''metadata'', v) # req_body) w = put_shapefile env ident req_body w) \<and>
         (\<not> truthy (get_prop req_body ''name'') \<longrightarrow>
            map name_col (committed (snd (put_shapefile env ident req_body w))) =
            map name_col (committed w)) \<and>
         (\<forall>s. get_prop req_body ''name'' = JStr s \<longrightarrow>
            list_all2 (\<lambda>r r'. name_col r' = name_col r \<or> (name_col r' = s \<and> s \<noteq> []))
              (committed w) (committed (snd (put_shapefile env ident req_body w))))"
proof (intro conjI allI impI)
  assume "\<not> truthy (get_prop req_body ''name'') \<and> \<not> truthy (get_prop req_body ''metadata'')"
  then show "put_shapefile env ident req_body w =
      (Responded (json 400 [(''error'', JStr ''No fields to update'')]), w)"
    by (simp add: put_shapefile_rejected)
next
  fix v assume "\<not> truthy v \<and> map_of req_body ''name'' = None"
  then show "put_shapefile env ident ((''name'', v) # req_body) w = put_shapefile env ident req_body w"
    by (simp add: put_shapefile_def get_prop_def put_assignments_falsy(1) [of v] Let_def)
next
  fix v assume "\<not> truthy v \<and> map_of req_body ''metadata'' = None"
  then show "put_shapefile env ident ((''metadata'', v) # req_body) w = put_shapefile env ident req_body w"
    by (simp add: put_shapefile_def get_prop_def put_assignments_falsy(2) [of v] Let_def)
next
  assume "\<not> truthy (get_prop req_body ''name'')"
  with put_shapefile_names [OF assms, of req_body env ident]
  have "list_all2 (\<lambda>r r'. name_col r' = name_col r)
          (committed w) (committed (snd (put_shapefile env ident req_body w)))"
    by simp
  then show "map name_col (committed (snd (put_shapefile env ident req_body w))) =
             map name_col (committed w)"
    by (rule list_all2_names)
next
  fix s assume s: "get_prop req_body ''name'' = JStr s"
  have "list_all2 (\<lambda>r r'. name_col r' = name_col r \<or> (truthy (JStr s) \<and> name_col r' = param_text env (JStr s)))
          (committed w) (committed (snd (put_shapefile env ident req_body w)))"
    using put_shapefile_names [OF assms, of req_body env ident] by (simp add: s)
  then show "list_all2 (\<lambda>r r'. name_col r' = name_col r \<or> (name_col r' = s \<and> s \<noteq> []))
          (committed w) (committed (snd (put_shapefile env ident req_body w)))"
    by (rule list_all2_mono) (auto simp: param_text_def)
qed

theorem put_tests_truthiness_witness:
  "txn example_world = Idle \<and>
   \<not> truthy (get_prop empty_name_only ''name'') \<and> \<not> truthy (get_prop empty_name_only ''metadata'') \<and>
   put_shapefile example_env ''1'' empty_name_only example_world =
     (Responded (json 400 [(''error'', JStr ''No fields to update'')]), example_world) \<and>
   put_shapefile example_env ''1'' ((''name'', JStr '''') # metadata_only) example_world =
     put_shapefile example_env ''1'' metadata_only example_world \<and>
   map name_col (committed (snd (put_shapefile example_env ''1'' empty_name_only example_world))) =
     [''roads.shp'']"
proof -
  have h: "txn example_world = Idle" by (simp add: example_world_def)
  have b: "\<not> truthy (get_prop empty_name_only ''name'')"
    "\<not> truthy (get_prop empty_name_only ''metadata'')"
    "\<not> truthy (JStr '''')" "map_of metadata_only ''name'' = None"
    by (simp_all add: empty_name_only_def metadata_only_def get_prop_def)
  have n: "map name_col (committed example_world) = [''roads.shp'']"
    by (simp add: example_world_def example_row_def)
  note t1 = put_tests_truthiness [OF h, of empty_name_only example_env "''1''"]
  note t2 = put_tests_truthiness [OF h, of metadata_only example_env "''1''"]
  from t1 t2 h b n show ?thesis by simp
qed

subsection \<open>Rounding to a double\<close>

















subsection \<open>\<^verbatim>\<open>GET /\<close>\<close>









subsection \<open>\<^verbatim>\<open>POST /gee\<close>\<close>

text \<open>
  C8. A request whose \<open>type\<close> is the number 123 is not rejected with status 400: the
  call of \<open>toUpperCase\<close> on it throws inside the \<^verbatim>\<open>try\<close> block, the \<^verbatim>\<open>catch\<close> block
  throws in turn on the name \<open>transactionId\<close>, and the handler ends without a response
  of its own, whatever the store holds.
\<close>

theorem gee_numeric_type_escapes:
  "gee env tid numeric_type w =
     (Rejected ''transactionId is not defined'',
      logger LInfo (tagged tid ''Generating GEE code'')
        [(''type'', JNum 123), (''shapefileId'', JNum 1)] w)"
  by (simp add: gee_def gee_try_def gee_missing_def call_toUpperCase_def get_prop_def numeric_type_def)

text \<open>For a \<open>type\<close> that is a string the request is rejected, not found, or answered
  with the script.\<close>

lemma trim_geeCode: "trim (geeCode env g cfg up) = script env g cfg up"
proof -
  have "trim ([CHR 0x0A] @ s @ [CHR 0x0A]) = s"
    if "s \<noteq> []" "\<not> is_space (hd s)" "\<not> is_space (last s)" for s
  proof -
    from that obtain c cs where s: "s = c # cs" by (cases s) auto
    with that have a: "dropWhile is_space ([CHR 0x0A] @ s @ [CHR 0x0A]) = s @ [CHR 0x0A]"
      by (simp add: is_space_def)
    have "dropWhile is_space (rev s) = rev s"
      using that by (simp add: dropWhile_eq_self_iff hd_rev)
    then have "dropWhile is_space (rev (s @ [CHR 0x0A])) = rev s"
      by (simp add: is_space_def)
    with a show ?thesis by (simp add: trim_def)
  qed
  note t = this [of "script env g cfg up"]
  have "geeCode env g cfg up = [CHR 0x0A] @ script env g cfg up @ [CHR 0x0A]"
    by (simp add: geeCode_def script_def)
  moreover have "script env g cfg up \<noteq> []" "\<not> is_space (hd (script env g cfg up))"
    "\<not> is_space (last (script env g cfg up))"
    by (simp_all add: script_def is_space_def)
  ultimately show ?thesis using t by simp
qed

lemma sublist_skip: "sublist x b \<Longrightarrow> sublist x (a @ b)"
proof -
  assume "sublist x b"
  then obtain ps ss where "b = ps @ x @ ss" by (auto simp: sublist_def)
  then have "a @ b = (a @ ps) @ x @ ss" by simp
  then show ?thesis unfolding sublist_def by blast
qed

lemma script_embeds:
  "sublist (JSON_stringify env g) (script env g cfg up)"
  "sublist (collection cfg) (script env g cfg up)"
  "sublist (JSON_stringify env (JArr (map JStr (bands cfg)))) (script env g cfg up)"
  "sublist (JSON_stringify env (JArr (map JStr (palette cfg)))) (script env g cfg up)"
  unfolding script_def
  by (rule sublist_append_rightI | rule sublist_skip)+

lemma q_select_by_id_Idle:
  assumes "txn w = Idle" and "db_fault env (issued w) = None"
    and "int4in env (param_text env idv) = Some i"
  shows "q_select_by_id env idv w =
           (Inr (filter (\<lambda>r. id_col r = i) (committed w)), w\<lparr>issued := Suc (issued w)\<rparr>)"
  using assms by (simp add: q_select_by_id_def statement_def visible_def Let_def)

lemma gee_for_string_type:
  assumes "txn w = Idle" and "db_fault env (issued w) = None"
    and "get_prop req_body ''type'' = JStr s"
  shows "(s = [] \<or> map_of SUPPORTED_INDICES (toUpperCase env s) = None \<or>
          \<not> truthy (get_prop req_body ''shapefileId'') \<longrightarrow>
            fst (gee env tid req_body w) =
              Responded (json 400 [(''error'', JStr ''Missing type or shapefileId'')])) \<and>
         (s \<noteq> [] \<and> map_of SUPPORTED_INDICES (toUpperCase env s) = Some cfg \<and>
          truthy (get_prop req_body ''shapefileId'') \<and>
          int4in env (param_text env (get_prop req_body ''shapefileId'')) = Some i \<longrightarrow>
            (case filter (\<lambda>r. id_col r = i) (committed w) of
               [] \<Rightarrow> fst (gee env tid req_body w) =
                       Responded (json 404 [(''error'', JStr ''Shapefile not found'')])
             | r # rest \<Rightarrow>
                 (\<forall>g. JSON_parse env (ST_AsGeoJSON env (geom_col r)) = Inr g \<longrightarrow>
                    fst (gee env tid req_body w) =
                      Responded (json 200
                        [(''success'', JBool True),
                         (''type'', JStr (toUpperCase env s)),
                         (''gee_code'', JStr (script env g cfg (toUpperCase env s))),
                         (''formula'', JStr (formula cfg)),
                         (''timestamp'', JStr (toISOString env (now w)))]))))"
proof (intro conjI impI)
  assume "s = [] \<or> map_of SUPPORTED_INDICES (toUpperCase env s) = None \<or>
          \<not> truthy (get_prop req_body ''shapefileId'')"
  then have "gee_missing env (JStr s) (get_prop req_body ''shapefileId'') = Inr True"
    by (auto simp: gee_missing_def call_toUpperCase_def)
  then show "fst (gee env tid req_body w) =
      Responded (json 400 [(''error'', JStr ''Missing type or shapefileId'')])"
    by (simp add: gee_def gee_try_def assms(3))
next
  let ?sid = "get_prop req_body ''shapefileId''"
  let ?w0 = "logger LInfo (tagged tid ''Generating GEE code'')
               [(''type'', JStr s), (''shapefileId'', ?sid)] w"
  assume a: "s \<noteq> [] \<and> map_of SUPPORTED_INDICES (toUpperCase env s) = Some cfg \<and> truthy ?sid \<and>
             int4in env (param_text env ?sid) = Some i"
  then have m: "gee_missing env (JStr s) ?sid = Inr False"
    by (simp add: gee_missing_def call_toUpperCase_def)
  have "txn ?w0 = Idle" "db_fault env (issued ?w0) = None" using assms(1,2) by simp_all
  from q_select_by_id_Idle [OF this, of ?sid i] a
  have q: "q_select_by_id env ?sid ?w0 =
             (Inr (filter (\<lambda>r. id_col r = i) (committed w)), ?w0\<lparr>issued := Suc (issued ?w0)\<rparr>)"
    by simp
  show "case filter (\<lambda>r. id_col r = i) (committed w) of
          [] \<Rightarrow> fst (gee env tid req_body w) =
                  Responded (json 404 [(''error'', JStr ''Shapefile not found'')])
        | r # rest \<Rightarrow>
            (\<forall>g. JSON_parse env (ST_AsGeoJSON env (geom_col r)) = Inr g \<longrightarrow>
               fst (gee env tid req_body w) =
                 Responded (json 200
                   [(''success'', JBool True),
                    (''type'', JStr (toUpperCase env s)),
                    (''gee_code'', JStr (script env g cfg (toUpperCase env s))),
                    (''formula'', JStr (formula cfg)),
                    (''timestamp'', JStr (toISOString env (now w)))]))"
    using a
    by (auto simp: gee_def gee_try_def assms(3) m q call_toUpperCase_def trim_geeCode Let_def
             split: list.splits)
qed

subsection \<open>Internal errors\<close>

lemma log_logger [simp]:
  "log_lines (logger l m k w) = log_lines w @ [\<lparr>level = l, message = m, meta = k\<rparr>]"
  by (simp add: logger_def)


lemma write_rows_log [simp]: "log_lines (write_rows rs w) = log_lines w"
  by (simp add: write_rows_def split: txn_state.splits)



lemma status_json [simp]: "status (json c kvs) = c" "payload (json c kvs) = JsonBody (JObj kvs)"
  by (simp_all add: json_def)



lemma write_rows_issued [simp]: "issued (write_rows rs w) = issued w"
  by (simp add: write_rows_def split: txn_state.splits)

















lemma prefix_logger: "prefix (log_lines w) (log_lines w1) \<Longrightarrow> prefix (log_lines w) (log_lines (logger l m k w1))"
  by (auto simp: prefix_def)








lemma run_script_log:
  "run_script net tid command w = (r, w1) \<Longrightarrow> prefix (log_lines w) (log_lines w1)"
  by (auto simp: run_script_def prefix_def split: prod.splits sum.splits option.splits)


lemma unlink_all_issued [simp]: "issued (unlink_all env tid ps w) = issued w"
  by (induction ps arbitrary: w) (auto simp: unlinkSync_def split: option.splits)



lemma process_image_finally_frame [simp]:
  "issued (process_image_finally env net tid paths w) = issued w"
  by (simp add: process_image_finally_def)











lemma fails_fast_refl: "issued w' = issued w \<Longrightarrow> fails_fast env w r w'"
  by (auto simp: fails_fast_def)








lemma http_logger_frame [simp]:
  "log_lines (http_logger m u w) = log_lines w @ [\<lparr>level = LHttp, message = m @ '' '' @ u, meta = []\<rparr>]"
  "issued (http_logger m u w) = issued w"
  by (simp_all add: http_logger_def)












end
